theory Spec2Isabelle
  imports Complex_Main "HOL-Library.Sublist"
begin

section \<open>JavaScript values\<close>

text \<open>
  The values that cross the boundary of the modelled code untyped: signaling payloads,
  the fraud score and analysis type, configuration objects. Host objects (streams,
  tracks, the peer connection) get records of their own further down.
\<close>

datatype jsval =
    JUndefined
  | JNull
  | JBool bool
  | JNum real
  | JNaN
  | JStr string
  | JArr "jsval list"
  | JObj "(string \<times> jsval) list"

text \<open>Truthiness, as \<^verbatim>\<open>&&\<close>, \<^verbatim>\<open>||\<close> and \<^verbatim>\<open>if\<close> test it.\<close>

fun truthy :: "jsval \<Rightarrow> bool" where
  "truthy JUndefined = False"
| "truthy JNull = False"
| "truthy (JBool b) = b"
| "truthy (JNum x) = (x \<noteq> 0)"
| "truthy JNaN = False"
| "truthy (JStr s) = (s \<noteq> [])"
| "truthy (JArr _) = True"
| "truthy (JObj _) = True"

text \<open>
  Strict equality \<^verbatim>\<open>===\<close> on primitives: no coercion, and NaN differs from itself.
  (Objects and arrays compare by identity in JavaScript; the modelled code only ever
  compares against string and number literals.)
\<close>

definition strict_eq :: "jsval \<Rightarrow> jsval \<Rightarrow> bool" where
  "strict_eq a b = (a = b \<and> a \<noteq> JNaN)"

text \<open>Property read \<^verbatim>\<open>o.k\<close>: the first binding of the key, \<^verbatim>\<open>undefined\<close> when absent.\<close>

fun get_prop :: "jsval \<Rightarrow> string \<Rightarrow> jsval" where
  "get_prop (JObj kvs) k = (case map_of kvs k of None \<Rightarrow> JUndefined | Some v \<Rightarrow> v)"
| "get_prop _ k = JUndefined"

section \<open>Fraud alert policy (backend/services/fraudDetection.js)\<close>

definition calculateAlertSeverity :: "jsval \<Rightarrow> jsval \<Rightarrow> string" where
  "calculateAlertSeverity fraudScore type =
     (if strict_eq type (JStr ''text'') then
        (if strict_eq fraudScore (JNum 2) then ''high'' else ''low'')
      else if strict_eq type (JStr ''audio'') then
        (if strict_eq fraudScore (JNum 1) then ''high'' else ''low'')
      else ''low'')"

definition generateAlertMessage :: "jsval \<Rightarrow> jsval \<Rightarrow> string" where
  "generateAlertMessage fraudScore type =
     (if strict_eq type (JStr ''text'') then
        (if strict_eq fraudScore (JNum 2)
         then ''Potential scam detected in conversation'' else ''Normal conversation'')
      else if strict_eq type (JStr ''audio'') then
        (if strict_eq fraudScore (JNum 1)
         then ''Suspicious audio patterns detected'' else ''Normal audio'')
      else ''Unknown fraud pattern'')"

text \<open>The score/type combinations that raise an alarm.\<close>

definition alarming :: "jsval \<Rightarrow> jsval \<Rightarrow> bool" where
  "alarming fraudScore type =
     ((type = JStr ''text'' \<and> fraudScore = JNum 2) \<or>
      (type = JStr ''audio'' \<and> fraudScore = JNum 1))"

section \<open>The call session (the VideoCall component)\<close>

text \<open>
  One mounted \<^verbatim>\<open>VideoCall\<close> component is one call session. Its \<^verbatim>\<open>useState\<close> cells and
  \<^verbatim>\<open>useRef\<close> cells together are the session state; the browser objects they point to
  (tracks, streams, the \<^verbatim>\<open>RTCPeerConnection\<close>, the \<^verbatim>\<open>MediaRecorder\<close>) are records.
  JavaScript runs one handler at a time; the model takes each handler from its first
  line to its last as one step, so a handler's \<^verbatim>\<open>await\<close>s are sequenced inside the step and
  no other handler runs between them. Console output is not modelled.
\<close>

subsection \<open>Browser objects\<close>

datatype track_kind = AudioKind | VideoKind

record media_track =
  track_id :: string
  kind :: track_kind
  enabled :: bool

text \<open>A \<^verbatim>\<open>MediaStream\<close> is the list of its tracks, in the order they were added.\<close>

type_synonym media_stream = "media_track list"

definition getTracks :: "media_stream \<Rightarrow> media_track list" where
  "getTracks ms = ms"

definition getVideoTracks :: "media_stream \<Rightarrow> media_track list" where
  "getVideoTracks ms = filter (\<lambda>t. kind t = VideoKind) ms"

definition getAudioTracks :: "media_stream \<Rightarrow> media_track list" where
  "getAudioTracks ms = filter (\<lambda>t. kind t = AudioKind) ms"

datatype error = Error string

text \<open>
  The connectivity handle. \<open>iceLog\<close> keeps every \<^verbatim>\<open>addIceCandidate\<close> call made on the
  handle, in call order, with whether the call resolved; \<open>senders\<close> holds, per
  \<^verbatim>\<open>RTCRtpSender\<close>, the id of its track (\<open>None\<close> for a sender without a track).
\<close>

record peer_connection =
  rtcConfig :: jsval
  senders :: "string option list"
  transceivers :: nat
  localDescription :: "jsval option"
  remoteDescription :: "jsval option"
  iceLog :: "(jsval \<times> bool) list"

datatype recorder_state = Inactive | Recording | Paused

text \<open>
  The recorder built by \<^verbatim>\<open>setupAudioRecording\<close>. Its \<^verbatim>\<open>ondataavailable\<close> closure reads
  \<^verbatim>\<open>audioFormat\<close> as it was when the closure was made, whatever \<^verbatim>\<open>setAudioFormat\<close> does
  later: \<open>capturedFormat\<close> is that value. \<open>rec_tracks\<close> are the ids of the audio tracks of
  the stream it records.
\<close>

record media_recorder =
  rec_state :: recorder_state
  mimeType :: string
  rec_tracks :: "string list"
  capturedFormat :: string

record blob =
  blob_size :: nat
  dataURL :: string

record video_element =
  srcObject :: "media_stream option"

datatype audio_node = AudioContextNode | AnalyserNode

datatype side = Local | Remote

text \<open>
  What the component does to the outside, as far as it is observable: messages put on
  the socket, calls into the owner, and the teardown calls on browser objects.
\<close>

datatype ext_op =
    Emit string jsval
  | Alert string
  | OnEndCall
  | DetachVideo side
  | RecorderStart nat
  | RecorderStop
  | GetSenders
  | ReplaceTrackNull nat
  | TrackStop string
  | RemoveTrack nat
  | GetTransceivers
  | TransceiverInactive nat
  | TransceiverStop nat
  | ClearHandlers
  | PcClose
  | AudioContextClose side

subsection \<open>Session state\<close>

record vc_state =
  localStream :: "media_stream option"
  remoteStream :: "media_stream option"
  callAccepted :: bool
  isVideoEnabled :: bool
  isAudioEnabled :: bool
  localAudioLevel :: nat
  remoteAudioLevel :: nat
  audioFormat :: string
  isRecording :: bool
  localVideoRef :: "video_element option"
  remoteVideoRef :: "video_element option"
  peerConnectionRef :: "peer_connection option"
  remoteMediaStreamRef :: "media_stream option"
  pendingRemoteIceCandidatesRef :: "jsval list"
  localAudioContextRef :: "audio_node option"
  remoteAudioContextRef :: "audio_node option"
  localAnalyserRef :: "audio_node option"
  remoteAnalyserRef :: "audio_node option"
  mediaRecorderRef :: "media_recorder option"
  audioChunksRef :: "blob list"
  initializedRef :: bool
  hasCleanedUpRef :: bool
  effects :: "ext_op list"

text \<open>The state of a freshly mounted component (lines 4 to 26).\<close>

definition initial_state :: vc_state where
  "initial_state =
     \<lparr> localStream = None, remoteStream = None, callAccepted = False,
       isVideoEnabled = True, isAudioEnabled = True,
       localAudioLevel = 0, remoteAudioLevel = 0,
       audioFormat = ''webm'', isRecording = False,
       localVideoRef = None, remoteVideoRef = None,
       peerConnectionRef = None, remoteMediaStreamRef = None,
       pendingRemoteIceCandidatesRef = [],
       localAudioContextRef = None, remoteAudioContextRef = None,
       localAnalyserRef = None, remoteAnalyserRef = None,
       mediaRecorderRef = None, audioChunksRef = [],
       initializedRef = False, hasCleanedUpRef = False,
       effects = [] \<rparr>"

subsection \<open>The environment\<close>

text \<open>
  The component's props and everything the browser decides. The connectivity engine,
  the media devices and the DOM are not code of the repository: whether one of their
  calls throws is a parameter, \<open>None\<close> meaning that the call went through.
\<close>

record call_data =
  cd_type :: jsval
  targetUserId :: jsval
  fromUserId :: jsval
  cd_from :: jsval
  cd_offer :: jsval
  conversationId :: jsval

record user_data =
  user_id :: string
  username :: jsval

text \<open>
  How the promise of lines 142 to 148 settles: the acknowledgement of
  \<^verbatim>\<open>get-turn-config\<close> arrives before the 5000 ms timer fires and resolves it with the
  server's answer, or the timer fires first and rejects it, or \<^verbatim>\<open>socket.emit\<close> itself throws
  and rejects it. Which of the three happens is the environment's choice; clock time is
  not modelled beyond it.
\<close>

datatype turn_reply = Acked jsval | TimedOut | EmitThrew error

record env =
  callData :: call_data
  user :: user_data
  mediaDevicesAvailable :: bool
  getUserMedia :: "error + media_stream"
  turnReply :: turn_reply
  VITE_TURN_SERVER :: "string option"
  VITE_TURN_SECRET :: "string option"
  VITE_TURN_REALM :: "string option"
  VITE_ICE_RELAY_ONLY :: "string option"
  newPeerConnection :: "jsval \<Rightarrow> error option"
  createOffer :: "peer_connection \<Rightarrow> error + jsval"
  createAnswer :: "peer_connection \<Rightarrow> error + jsval"
  setLocalDescriptionFails :: "peer_connection \<Rightarrow> jsval \<Rightarrow> error option"
  setRemoteDescriptionFails :: "peer_connection \<Rightarrow> jsval \<Rightarrow> error option"
  addIceCandidateFails :: "peer_connection \<Rightarrow> jsval \<Rightarrow> error option"
  monitorFails :: "side \<Rightarrow> media_stream \<Rightarrow> error option"
  sampleLevel :: "vc_state \<Rightarrow> side \<Rightarrow> nat"
  isTypeSupported :: "string \<Rightarrow> bool"
  newMediaRecorder :: "media_track list \<Rightarrow> string \<Rightarrow> error option"
  throws :: "vc_state \<Rightarrow> ext_op \<Rightarrow> error option"

subsection \<open>Exceptions\<close>

text \<open>
  A piece of code that may throw returns the error that leaves it, if any, beside the
  state as it stands at that point. \<open>andThen\<close> is sequencing (an error skips what
  follows), \<open>catchAll\<close> is \<^verbatim>\<open>try { .. } catch (_) {}\<close>, and \<open>forEach\<close> is
  \<^verbatim>\<open>Array.prototype.forEach\<close> with a callback that may throw.
\<close>

definition andThen ::
  "error option \<times> 's \<Rightarrow> ('s \<Rightarrow> error option \<times> 's) \<Rightarrow> error option \<times> 's" where
  "andThen r f = (case r of (None, s) \<Rightarrow> f s | (Some err, s) \<Rightarrow> (Some err, s))"

definition catchAll :: "error option \<times> 's \<Rightarrow> error option \<times> 's" where
  "catchAll r = (case r of (None, s) \<Rightarrow> (None, s) | (Some err, s) \<Rightarrow> (None, s))"

fun forEach ::
  "('x \<Rightarrow> 's \<Rightarrow> error option \<times> 's) \<Rightarrow> 'x list \<Rightarrow> 's \<Rightarrow> error option \<times> 's" where
  "forEach f [] s = (None, s)"
| "forEach f (x # xs) s = andThen (f x s) (forEach f xs)"

text \<open>
  A call on a browser object that the environment may refuse: when it goes through it
  is appended to the log of what the component did.
\<close>

definition attempt :: "env \<Rightarrow> ext_op \<Rightarrow> vc_state \<Rightarrow> error option \<times> vc_state" where
  "attempt e op s =
     (case throws e s op of
        Some err \<Rightarrow> (Some err, s)
      | None \<Rightarrow> (None, s\<lparr>effects := effects s @ [op]\<rparr>))"

definition str_truthy :: "string option \<Rightarrow> bool" where
  "str_truthy v = (case v of None \<Rightarrow> False | Some str \<Rightarrow> str \<noteq> [])"

subsection \<open>Calls on the connectivity handle\<close>

text \<open>
  Each call returns the handle as the call left it, and the error it threw, if any.
  \<^verbatim>\<open>new RTCSessionDescription(..)\<close> and \<^verbatim>\<open>new RTCIceCandidate(..)\<close> sit in the same
  \<^verbatim>\<open>try\<close> as the call they feed, so their failure is the call's failure.
\<close>

definition setRemoteDescription ::
  "env \<Rightarrow> jsval \<Rightarrow> peer_connection \<Rightarrow> error option \<times> peer_connection" where
  "setRemoteDescription e d pc =
     (case setRemoteDescriptionFails e pc d of
        Some err \<Rightarrow> (Some err, pc)
      | None \<Rightarrow> (None, pc\<lparr>remoteDescription := Some d\<rparr>))"

definition setLocalDescription ::
  "env \<Rightarrow> jsval \<Rightarrow> peer_connection \<Rightarrow> error option \<times> peer_connection" where
  "setLocalDescription e d pc =
     (case setLocalDescriptionFails e pc d of
        Some err \<Rightarrow> (Some err, pc)
      | None \<Rightarrow> (None, pc\<lparr>localDescription := Some d\<rparr>))"

definition addIceCandidate ::
  "env \<Rightarrow> jsval \<Rightarrow> peer_connection \<Rightarrow> error option \<times> peer_connection" where
  "addIceCandidate e c pc =
     (case addIceCandidateFails e pc c of
        Some err \<Rightarrow> (Some err, pc\<lparr>iceLog := iceLog pc @ [(c, False)]\<rparr>)
      | None \<Rightarrow> (None, pc\<lparr>iceLog := iceLog pc @ [(c, True)]\<rparr>))"

subsection \<open>Signaling handlers\<close>

text \<open>
  The loop of lines 279 to 285 and, word for word again, of lines 316 to 322: every
  buffered candidate is passed to \<^verbatim>\<open>addIceCandidate\<close> inside a \<^verbatim>\<open>try\<close> of its own, whose
  \<^verbatim>\<open>catch\<close> only logs. The first component is the error that leaves the loop.
\<close>

fun applyBuffered ::
  "env \<Rightarrow> jsval list \<Rightarrow> peer_connection \<Rightarrow> error option \<times> peer_connection" where
  "applyBuffered e [] pc = (None, pc)"
| "applyBuffered e (candidate # rest) pc =
     (case addIceCandidate e candidate pc of
        (None, pc') \<Rightarrow> applyBuffered e rest pc'
      | (Some err, pc') \<Rightarrow> applyBuffered e rest pc')"

text \<open>
  Lines 276 to 287 and 313 to 324: flush the pending buffer into the handle the remote
  description was just set on, then empty it. The result is the error that leaves the
  block, the handle, and the buffer.
\<close>

definition flushPending ::
  "env \<Rightarrow> peer_connection \<Rightarrow> jsval list \<Rightarrow> error option \<times> peer_connection \<times> jsval list" where
  "flushPending e pc pending =
     (if length pending > 0 then
        (case applyBuffered e pending pc of
           (Some err, pc') \<Rightarrow> (Some err, pc', pending)
         | (None, pc') \<Rightarrow> (None, pc', []))
      else (None, pc, pending))"

text \<open>Lines 306 to 334; \<open>data\<close> is the payload of the \<^verbatim>\<open>call-answer\<close> message.\<close>

definition handleCallAnswer :: "env \<Rightarrow> jsval \<Rightarrow> vc_state \<Rightarrow> vc_state" where
  "handleCallAnswer e data s =
     (case peerConnectionRef s of
        None \<Rightarrow> s
      | Some pc \<Rightarrow>
          if truthy (get_prop data ''answer'') then
            (case setRemoteDescription e (get_prop data ''answer'') pc of
               (Some err, pc') \<Rightarrow> s\<lparr>peerConnectionRef := Some pc'\<rparr>
             | (None, pc') \<Rightarrow>
                 (case flushPending e pc' (pendingRemoteIceCandidatesRef s) of
                    (Some err, pc'', pending) \<Rightarrow>
                      s\<lparr>peerConnectionRef := Some pc'', pendingRemoteIceCandidatesRef := pending\<rparr>
                  | (None, pc'', pending) \<Rightarrow>
                      s\<lparr>peerConnectionRef := Some pc'', pendingRemoteIceCandidatesRef := pending\<rparr>))
          else s)"

text \<open>Lines 336 to 357; \<open>data\<close> is the payload of the \<^verbatim>\<open>ice-candidate\<close> message.\<close>

definition handleIceCandidate :: "env \<Rightarrow> jsval \<Rightarrow> vc_state \<Rightarrow> vc_state" where
  "handleIceCandidate e data s =
     (case peerConnectionRef s of
        None \<Rightarrow> s
      | Some pc \<Rightarrow>
          if truthy (get_prop data ''candidate'') then
            (if remoteDescription pc \<noteq> None then
               (case addIceCandidate e (get_prop data ''candidate'') pc of
                  (Some err, pc') \<Rightarrow> s\<lparr>peerConnectionRef := Some pc'\<rparr>
                | (None, pc') \<Rightarrow> s\<lparr>peerConnectionRef := Some pc'\<rparr>)
             else
               s\<lparr>pendingRemoteIceCandidatesRef :=
                    pendingRemoteIceCandidatesRef s @ [get_prop data ''candidate'']\<rparr>)
          else s)"

subsection \<open>Audio level monitoring\<close>

text \<open>
  One pass of \<^verbatim>\<open>updateAudioLevel\<close> (lines 410 to 431), which reschedules itself on every
  animation frame. The level it publishes is computed in floating point from the
  analyser's bins; here it is the environment's \<open>sampleLevel\<close>.
\<close>

definition updateAudioLevel :: "env \<Rightarrow> side \<Rightarrow> vc_state \<Rightarrow> vc_state" where
  "updateAudioLevel e type s =
     (if (type = Local \<and> localAnalyserRef s \<noteq> None) \<or>
         (type = Remote \<and> remoteAnalyserRef s \<noteq> None)
      then (if type = Local then s\<lparr>localAudioLevel := sampleLevel e s type\<rparr>
            else s\<lparr>remoteAudioLevel := sampleLevel e s type\<rparr>)
      else s)"

text \<open>
  Lines 391 to 438. Whatever throws while the audio graph is built (the first four
  statements of the \<^verbatim>\<open>try\<close>) is caught and logged, before any ref is written.
\<close>

definition setupAudioLevelMonitoring ::
  "env \<Rightarrow> media_stream \<Rightarrow> side \<Rightarrow> vc_state \<Rightarrow> vc_state" where
  "setupAudioLevelMonitoring e stream type s =
     (case monitorFails e type stream of
        Some err \<Rightarrow> s
      | None \<Rightarrow>
          updateAudioLevel e type
            (if type = Local
             then s\<lparr>localAudioContextRef := Some AudioContextNode,
                    localAnalyserRef := Some AnalyserNode\<rparr>
             else s\<lparr>remoteAudioContextRef := Some AudioContextNode,
                    remoteAnalyserRef := Some AnalyserNode\<rparr>))"

subsection \<open>Remote tracks\<close>

text \<open>The \<^verbatim>\<open>pc.ontrack\<close> callback of lines 216 to 239; \<open>track\<close> is \<^verbatim>\<open>event.track\<close>.\<close>

definition ontrack :: "env \<Rightarrow> media_track \<Rightarrow> vc_state \<Rightarrow> vc_state" where
  "ontrack e track s =
     (let inboundStream =
            (case remoteMediaStreamRef s of None \<Rightarrow> [] | Some ms \<Rightarrow> ms);
          exists = list_ex (\<lambda>t. track_id t = track_id track) (getTracks inboundStream);
          inboundStream' = (if \<not> exists then inboundStream @ [track] else inboundStream);
          s1 = s\<lparr>remoteMediaStreamRef := Some inboundStream',
                 remoteStream := Some inboundStream'\<rparr>;
          s2 = setupAudioLevelMonitoring e inboundStream' Remote s1
      in s2\<lparr>callAccepted := True\<rparr>)"

subsection \<open>Mode toggles\<close>

text \<open>
  \<^verbatim>\<open>track.enabled = !track.enabled\<close> on the first track of a kind: the track object is
  changed where it sits in the stream.
\<close>

fun flipFirst :: "track_kind \<Rightarrow> media_stream \<Rightarrow> media_stream" where
  "flipFirst k [] = []"
| "flipFirst k (t # ts) =
     (if kind t = k then t\<lparr>enabled := \<not> enabled t\<rparr> # ts else t # flipFirst k ts)"

definition toggleVideo :: "vc_state \<Rightarrow> vc_state" where
  "toggleVideo s =
     (case localStream s of
        None \<Rightarrow> s
      | Some ms \<Rightarrow>
          (case getVideoTracks ms of
             [] \<Rightarrow> s
           | videoTrack # _ \<Rightarrow>
               s\<lparr>localStream := Some (flipFirst VideoKind ms),
                  isVideoEnabled := \<not> enabled videoTrack\<rparr>))"

definition toggleAudio :: "vc_state \<Rightarrow> vc_state" where
  "toggleAudio s =
     (case localStream s of
        None \<Rightarrow> s
      | Some ms \<Rightarrow>
          (case getAudioTracks ms of
             [] \<Rightarrow> s
           | audioTrack # _ \<Rightarrow>
               s\<lparr>localStream := Some (flipFirst AudioKind ms),
                  isAudioEnabled := \<not> enabled audioTrack\<rparr>))"

subsection \<open>Chunked audio capture\<close>

text \<open>
  Lines 440 to 487. \<^verbatim>\<open>audioFormat\<close> is a constant of the closure: \<^verbatim>\<open>setAudioFormat\<close> writes
  the state cell, and the \<^verbatim>\<open>mimeType\<close> option two lines later still reads the old value.
\<close>

definition setupAudioRecording :: "env \<Rightarrow> media_stream \<Rightarrow> vc_state \<Rightarrow> vc_state" where
  "setupAudioRecording e stream s =
     (let audioOnlyStream = getAudioTracks stream;
          fmt = audioFormat s;
          s1 = (if \<not> isTypeSupported e (''audio/'' @ fmt)
                then s\<lparr>audioFormat := ''webm''\<rparr> else s);
          chosen = (if isTypeSupported e (''audio/'' @ fmt)
                    then ''audio/'' @ fmt else ''audio/webm'')
      in case newMediaRecorder e audioOnlyStream chosen of
           Some err \<Rightarrow> s1
         | None \<Rightarrow>
             s1\<lparr>mediaRecorderRef :=
                    Some \<lparr>rec_state = Inactive, mimeType = chosen,
                          rec_tracks = map track_id audioOnlyStream,
                          capturedFormat = fmt\<rparr>,
                 audioChunksRef := []\<rparr>)"

text \<open>
  \<^verbatim>\<open>reader.result.split(',')[1]\<close>: what stands between the first comma of the data URL
  and the next one (or the end); \<^verbatim>\<open>undefined\<close> when the URL has no comma.
\<close>

definition base64Data :: "string \<Rightarrow> jsval" where
  "base64Data url =
     (if CHR '','' \<in> set url
      then JStr (takeWhile (\<lambda>c. c \<noteq> CHR '','') (tl (dropWhile (\<lambda>c. c \<noteq> CHR '','') url)))
      else JUndefined)"

text \<open>Decimal digits of a number, as a template literal prints \<^verbatim>\<open>Date.now()\<close>.\<close>

fun decimal :: "nat \<Rightarrow> string" where
  "decimal n =
     (if n < 10 then [char_of (48 + n)]
      else decimal (n div 10) @ [char_of (48 + n mod 10)])"

declare decimal.simps [simp del]

text \<open>
  The \<^verbatim>\<open>ondataavailable\<close> handler of lines 459 to 477 with the \<^verbatim>\<open>onload\<close> of its reader:
  \<open>fmt\<close> is the closure's \<^verbatim>\<open>audioFormat\<close>, \<open>now\<close> is \<^verbatim>\<open>Date.now()\<close>, \<open>chunk\<close> is
  \<^verbatim>\<open>event.data\<close>.
\<close>

definition audioChunkMessage :: "env \<Rightarrow> string \<Rightarrow> nat \<Rightarrow> blob \<Rightarrow> jsval" where
  "audioChunkMessage e fmt now chunk =
     JObj [(''conversationId'',
              (if truthy (conversationId (callData e)) then conversationId (callData e)
               else JStr (''call_'' @ user_id (user e) @ ''_'' @ decimal now))),
           (''audioData'', base64Data (dataURL chunk)),
           (''userId'', JStr (user_id (user e))),
           (''format'', JStr fmt)]"

definition ondataavailable :: "env \<Rightarrow> string \<Rightarrow> nat \<Rightarrow> blob \<Rightarrow> vc_state \<Rightarrow> vc_state" where
  "ondataavailable e fmt now chunk s =
     (if blob_size chunk > 0 then
        s\<lparr>audioChunksRef := audioChunksRef s @ [chunk],
           effects := effects s @ [Emit ''audio-chunk'' (audioChunkMessage e fmt now chunk)]\<rparr>
      else s)"

definition startAudioRecording :: "env \<Rightarrow> vc_state \<Rightarrow> error option \<times> vc_state" where
  "startAudioRecording e s =
     (case mediaRecorderRef s of
        None \<Rightarrow> (None, s)
      | Some r \<Rightarrow>
          if rec_state r = Inactive then
            andThen (attempt e (RecorderStart 2000) s)
              (\<lambda>s'. (None, s'\<lparr>mediaRecorderRef := Some (r\<lparr>rec_state := Recording\<rparr>),
                             isRecording := True\<rparr>))
          else (None, s))"

text \<open>
  \<^verbatim>\<open>MediaRecorder.stop()\<close> raises on an inactive recorder only, which the guard rules
  out; the call stands outside every \<^verbatim>\<open>try\<close>.
\<close>

definition stopAudioRecording :: "vc_state \<Rightarrow> error option \<times> vc_state" where
  "stopAudioRecording s =
     (case mediaRecorderRef s of
        None \<Rightarrow> (None, s)
      | Some r \<Rightarrow>
          if rec_state r = Recording then
            (None, s\<lparr>mediaRecorderRef := Some (r\<lparr>rec_state := Inactive\<rparr>),
                      isRecording := False,
                      effects := effects s @ [RecorderStop]\<rparr>)
          else (None, s))"

subsection \<open>Cleanup\<close>

text \<open>Lines 513 to 518: take the stream off a video element that is mounted.\<close>

definition detachVideo :: "env \<Rightarrow> side \<Rightarrow> vc_state \<Rightarrow> error option \<times> vc_state" where
  "detachVideo e sd s =
     (case (if sd = Remote then remoteVideoRef s else localVideoRef s) of
        None \<Rightarrow> (None, s)
      | Some v \<Rightarrow>
          catchAll
            (andThen (attempt e (DetachVideo sd) s)
               (\<lambda>s'. (None, (if sd = Remote
                              then s'\<lparr>remoteVideoRef := Some (v\<lparr>srcObject := None\<rparr>)\<rparr>
                              else s'\<lparr>localVideoRef := Some (v\<lparr>srcObject := None\<rparr>)\<rparr>)))))"

text \<open>
  Lines 527 to 533, the callback for sender number \<open>i\<close> whose track is \<open>tr\<close>. The
  promise of \<^verbatim>\<open>replaceTrack\<close> is not awaited, so \<^verbatim>\<open>sender.track\<close> is still the old track on
  the next line.
\<close>

definition stopSender :: "env \<Rightarrow> nat \<times> string option \<Rightarrow> vc_state \<Rightarrow> error option \<times> vc_state" where
  "stopSender e sender s =
     andThen (catchAll (attempt e (ReplaceTrackNull (fst sender)) s))
       (\<lambda>s1. andThen
          (case snd sender of
             None \<Rightarrow> (None, s1)
           | Some tid \<Rightarrow> catchAll (attempt e (TrackStop tid) s1))
          (\<lambda>s2. catchAll (attempt e (RemoveTrack (fst sender)) s2)))"

text \<open>Lines 534 to 537, the callback for transceiver number \<open>j\<close>.\<close>

definition stopTransceiver :: "env \<Rightarrow> nat \<Rightarrow> vc_state \<Rightarrow> error option \<times> vc_state" where
  "stopTransceiver e j s =
     andThen (catchAll (attempt e (TransceiverInactive j) s))
       (\<lambda>s1. catchAll (attempt e (TransceiverStop j) s1))"

text \<open>Lines 524 to 539.\<close>

definition stopSendersAndTransceivers :: "env \<Rightarrow> vc_state \<Rightarrow> error option \<times> vc_state" where
  "stopSendersAndTransceivers e s =
     (case peerConnectionRef s of
        None \<Rightarrow> (None, s)
      | Some pc \<Rightarrow>
          catchAll
            (andThen (attempt e GetSenders s)
               (\<lambda>s1. andThen (forEach (stopSender e) (enumerate 0 (senders pc)) s1)
                  (\<lambda>s2. andThen (attempt e GetTransceivers s2)
                     (\<lambda>s3. forEach (stopTransceiver e) [0..<transceivers pc] s3)))))"

text \<open>
  Lines 542 to 548. \<open>closureStream\<close> is \<^verbatim>\<open>localStream\<close> as the closure of \<^verbatim>\<open>cleanup\<close> holds
  it: the state cell of the render that made the closure, which for the unmount effect
  and the socket listener is the first render.
\<close>

definition stopLocalTracks ::
  "env \<Rightarrow> media_stream option \<Rightarrow> vc_state \<Rightarrow> error option \<times> vc_state" where
  "stopLocalTracks e closureStream s =
     catchAll
       (case closureStream of
          None \<Rightarrow> (None, s)
        | Some ms \<Rightarrow>
            forEach (\<lambda>track s'. catchAll (attempt e (TrackStop (track_id track)) s'))
              (getTracks ms) s)"

text \<open>Lines 551 to 562.\<close>

definition closePeerConnection :: "env \<Rightarrow> vc_state \<Rightarrow> error option \<times> vc_state" where
  "closePeerConnection e s =
     (case peerConnectionRef s of
        None \<Rightarrow> (None, s)
      | Some pc \<Rightarrow>
          catchAll (andThen (attempt e ClearHandlers s) (\<lambda>s1. attempt e PcClose s1)))"

text \<open>Lines 565 and 566.\<close>

definition closeAudioContext :: "env \<Rightarrow> side \<Rightarrow> vc_state \<Rightarrow> error option \<times> vc_state" where
  "closeAudioContext e sd s =
     catchAll
       (case (if sd = Local then localAudioContextRef s else remoteAudioContextRef s) of
          None \<Rightarrow> (None, s)
        | Some ctx \<Rightarrow> attempt e (AudioContextClose sd) s)"

text \<open>Lines 568 to 582.\<close>

definition resetSession :: "vc_state \<Rightarrow> vc_state" where
  "resetSession s =
     s\<lparr>localStream := None,
        remoteStream := None,
        peerConnectionRef := None,
        remoteMediaStreamRef := None,
        pendingRemoteIceCandidatesRef := [],
        localAudioContextRef := None,
        remoteAudioContextRef := None,
        localAnalyserRef := None,
        remoteAnalyserRef := None,
        mediaRecorderRef := None,
        audioChunksRef := [],
        callAccepted := False,
        localAudioLevel := 0,
        remoteAudioLevel := 0,
        isRecording := False\<rparr>"

text \<open>Lines 505 to 583.\<close>

definition cleanup ::
  "env \<Rightarrow> media_stream option \<Rightarrow> vc_state \<Rightarrow> error option \<times> vc_state" where
  "cleanup e closureStream s =
     (if hasCleanedUpRef s then (None, s)
      else
        andThen (detachVideo e Remote (s\<lparr>hasCleanedUpRef := True\<rparr>))
          (\<lambda>s1. andThen (detachVideo e Local s1)
          (\<lambda>s2. andThen (stopAudioRecording s2)
          (\<lambda>s3. andThen (stopSendersAndTransceivers e s3)
          (\<lambda>s4. andThen (stopLocalTracks e closureStream s4)
          (\<lambda>s5. andThen (closePeerConnection e s5)
          (\<lambda>s6. andThen (closeAudioContext e Local s6)
          (\<lambda>s7. andThen (closeAudioContext e Remote s7)
          (\<lambda>s8. (None, resetSession s8))))))))))"

text \<open>Lines 359 to 369.\<close>

definition handleCallEnded ::
  "env \<Rightarrow> media_stream option \<Rightarrow> vc_state \<Rightarrow> error option \<times> vc_state" where
  "handleCallEnded e closureStream s =
     andThen (cleanup e closureStream s)
       (\<lambda>s'. (None, s'\<lparr>effects := effects s' @ [OnEndCall]\<rparr>))"

definition endCall ::
  "env \<Rightarrow> media_stream option \<Rightarrow> vc_state \<Rightarrow> error option \<times> vc_state" where
  "endCall e closureStream s =
     handleCallEnded e closureStream
       (s\<lparr>effects := effects s @
            [Emit ''call-ended''
               (JObj [(''to'', (if strict_eq (cd_type (callData e)) (JStr ''outgoing'')
                                then targetUserId (callData e)
                                else fromUserId (callData e)))])]\<rparr>)"

subsection \<open>Initialization\<close>

definition defaultIceServers :: "jsval list" where
  "defaultIceServers =
     [JObj [(''urls'', JStr ''stun:stun.l.google.com:19302'')],
      JObj [(''urls'', JStr ''stun:stun1.l.google.com:19302'')],
      JObj [(''urls'', JStr ''stun:stun2.l.google.com:19302'')]]"

definition defaultRtcConfig :: jsval where
  "defaultRtcConfig = JObj [(''iceServers'', JArr defaultIceServers)]"

definition turnServer :: "string \<Rightarrow> string \<Rightarrow> string \<Rightarrow> jsval" where
  "turnServer turnUrl turnSecret transport =
     JObj [(''urls'', JArr [JStr (''turn:'' @ turnUrl @ ''?transport='' @ transport)]),
           (''username'', JStr ''temp-user''),
           (''credential'', JStr turnSecret),
           (''credentialType'', JStr ''password'')]"

text \<open>\<^verbatim>\<open>rtcConfig.iceServers.push(srv)\<close> and \<^verbatim>\<open>rtcConfig.k = v\<close>.\<close>

fun pushIceServer :: "jsval \<Rightarrow> jsval \<Rightarrow> jsval" where
  "pushIceServer (JObj kvs) srv =
     JObj (map (\<lambda>(k, v). if k = ''iceServers''
                          then (k, (case v of JArr xs \<Rightarrow> JArr (xs @ [srv]) | _ \<Rightarrow> v))
                          else (k, v)) kvs)"
| "pushIceServer v srv = v"

fun set_prop :: "jsval \<Rightarrow> string \<Rightarrow> jsval \<Rightarrow> jsval" where
  "set_prop (JObj kvs) k v =
     JObj (if k \<in> fst ` set kvs
           then map (\<lambda>(k', v'). if k' = k then (k', v) else (k', v')) kvs
           else kvs @ [(k, v)])"
| "set_prop x k v = x"

text \<open>
  Lines 157 to 176, the \<^verbatim>\<open>catch\<close> of the configuration request. (\<^verbatim>\<open>turnRealm\<close> is read
  and never used.)
\<close>

definition envFallback :: "env \<Rightarrow> jsval \<Rightarrow> jsval" where
  "envFallback e config =
     (if str_truthy (VITE_TURN_SERVER e) \<and> str_truthy (VITE_TURN_SECRET e) then
        (case (VITE_TURN_SERVER e, VITE_TURN_SECRET e) of
           (Some turnUrl, Some turnSecret) \<Rightarrow>
             pushIceServer
               (pushIceServer config (turnServer turnUrl turnSecret ''udp''))
               (turnServer turnUrl turnSecret ''tcp'')
         | _ \<Rightarrow> config)
      else config)"

text \<open>Lines 142 to 148: the awaited promise, \<open>Inl\<close> when it rejects.\<close>

definition requestTurnConfig :: "env \<Rightarrow> vc_state \<Rightarrow> (error + jsval) \<times> vc_state" where
  "requestTurnConfig e s =
     (case turnReply e of
        EmitThrew err \<Rightarrow> (Inl err, s)
      | TimedOut \<Rightarrow>
          (Inl (Error ''TURN config timeout''),
           s\<lparr>effects := effects s @ [Emit ''get-turn-config'' JUndefined]\<rparr>)
      | Acked config \<Rightarrow>
          (Inr config, s\<lparr>effects := effects s @ [Emit ''get-turn-config'' JUndefined]\<rparr>))"

text \<open>Lines 130 to 183: the configuration the handle is built with.\<close>

definition resolveRtcConfig :: "env \<Rightarrow> vc_state \<Rightarrow> jsval \<times> vc_state" where
  "resolveRtcConfig e s =
     (case requestTurnConfig e s of
        (Inr turnConfig, s') \<Rightarrow>
          (if truthy turnConfig \<and> truthy (get_prop turnConfig ''iceServers'')
           then (turnConfig, s') else (defaultRtcConfig, s'))
      | (Inl err, s') \<Rightarrow> (envFallback e defaultRtcConfig, s'))"

definition forceRelay :: "env \<Rightarrow> jsval \<Rightarrow> jsval" where
  "forceRelay e config =
     (if VITE_ICE_RELAY_ONLY e = Some ''1''
      then set_prop config ''iceTransportPolicy'' (JStr ''relay'') else config)"

definition newRTCPeerConnection :: "jsval \<Rightarrow> peer_connection" where
  "newRTCPeerConnection cfg =
     \<lparr> rtcConfig = cfg, senders = [], transceivers = 0,
       localDescription = None, remoteDescription = None, iceLog = [] \<rparr>"

text \<open>Lines 210 to 213: one sender, and one transceiver, per local track.\<close>

definition addLocalTracks :: "media_stream \<Rightarrow> peer_connection \<Rightarrow> peer_connection" where
  "addLocalTracks stream pc =
     pc\<lparr>senders := senders pc @ map (\<lambda>track. Some (track_id track)) (getTracks stream),
        transceivers := transceivers pc + length (getTracks stream)\<rparr>"

text \<open>
  Lines 257 to 269 and 272 to 297. The local \<^verbatim>\<open>pc\<close> and \<^verbatim>\<open>peerConnectionRef.current\<close> are
  one object: both functions carry the handle beside the state and keep the ref equal
  to it.
\<close>

definition offerOutgoing ::
  "env \<Rightarrow> peer_connection \<times> vc_state \<Rightarrow> error option \<times> peer_connection \<times> vc_state" where
  "offerOutgoing e ps =
     (case ps of (pc, s) \<Rightarrow>
        (case createOffer e pc of
           Inl err \<Rightarrow> (Some err, pc, s)
         | Inr offer \<Rightarrow>
             (case setLocalDescription e offer pc of
                (Some err, pc') \<Rightarrow> (Some err, pc', s\<lparr>peerConnectionRef := Some pc'\<rparr>)
              | (None, pc') \<Rightarrow>
                  (None, pc',
                   s\<lparr>peerConnectionRef := Some pc',
                      effects := effects s @
                        [Emit ''call-offer''
                           (JObj [(''to'', targetUserId (callData e)),
                                  (''from'', username (user e)),
                                  (''fromUserId'', JStr (user_id (user e))),
                                  (''offer'', offer)])]\<rparr>))))"

definition answerIncoming ::
  "env \<Rightarrow> peer_connection \<times> vc_state \<Rightarrow> error option \<times> peer_connection \<times> vc_state" where
  "answerIncoming e ps =
     (case ps of (pc, s) \<Rightarrow>
        (case setRemoteDescription e (cd_offer (callData e)) pc of
           (Some err, pc') \<Rightarrow> (Some err, pc', s\<lparr>peerConnectionRef := Some pc'\<rparr>)
         | (None, pc1) \<Rightarrow>
             (case flushPending e pc1 (pendingRemoteIceCandidatesRef s) of
                (Some err, pc2, pending) \<Rightarrow>
                  (Some err, pc2,
                   s\<lparr>peerConnectionRef := Some pc2, pendingRemoteIceCandidatesRef := pending\<rparr>)
              | (None, pc2, pending) \<Rightarrow>
                  (let s2 = s\<lparr>peerConnectionRef := Some pc2,
                               pendingRemoteIceCandidatesRef := pending\<rparr>
                   in case createAnswer e pc2 of
                        Inl err \<Rightarrow> (Some err, pc2, s2)
                      | Inr answer \<Rightarrow>
                          (case setLocalDescription e answer pc2 of
                             (Some err, pc3) \<Rightarrow>
                               (Some err, pc3, s2\<lparr>peerConnectionRef := Some pc3\<rparr>)
                           | (None, pc3) \<Rightarrow>
                               (None, pc3,
                                s2\<lparr>peerConnectionRef := Some pc3,
                                    effects := effects s2 @
                                      [Emit ''call-answer''
                                         (JObj [(''to'', fromUserId (callData e)),
                                                (''answer'', answer)])]\<rparr>))))))"

text \<open>
  Lines 185 to 297: build the handle from the resolved configuration, add the local
  tracks, publish the handle, and negotiate according to the direction of the call.
\<close>

definition connectWith ::
  "env \<Rightarrow> media_stream \<Rightarrow> jsval \<Rightarrow> vc_state \<Rightarrow> error option \<times> vc_state" where
  "connectWith e stream config s =
     (case newPeerConnection e config of
        Some err \<Rightarrow> (Some err, s)
      | None \<Rightarrow>
          (let pc = addLocalTracks stream (newRTCPeerConnection config);
               s5 = s\<lparr>peerConnectionRef := Some pc\<rparr>
           in case
                andThen
                  (if strict_eq (cd_type (callData e)) (JStr ''outgoing'')
                   then offerOutgoing e (pc, s5) else (None, pc, s5))
                  (\<lambda>ps. if strict_eq (cd_type (callData e)) (JStr ''incoming'')
                            \<and> truthy (cd_offer (callData e))
                         then answerIncoming e ps else (None, ps))
              of (r, pc', s') \<Rightarrow> (r, s')))"

text \<open>The body of the \<^verbatim>\<open>try\<close> of \<^verbatim>\<open>initializeCall\<close>, lines 94 to 297.\<close>

definition tryInitializeCall :: "env \<Rightarrow> vc_state \<Rightarrow> error option \<times> vc_state" where
  "tryInitializeCall e s =
     (if \<not> mediaDevicesAvailable e then
        (Some (Error ''MediaDevices API not available. Please use HTTPS or localhost.''), s)
      else
        (case getUserMedia e of
           Inl err \<Rightarrow> (Some err, s)
         | Inr stream \<Rightarrow>
             (let s1 = s\<lparr>localStream := Some stream\<rparr>;
                  s2 = setupAudioLevelMonitoring e stream Local s1;
                  s3 = setupAudioRecording e stream s2;
                  resolved = resolveRtcConfig e s3
              in connectWith e stream (forceRelay e (fst resolved)) (snd resolved))))"

definition message :: "error \<Rightarrow> string" where
  "message err = (case err of Error m \<Rightarrow> m)"

text \<open>Lines 92 to 304.\<close>

definition initializeCall :: "env \<Rightarrow> vc_state \<Rightarrow> vc_state" where
  "initializeCall e s =
     (case tryInitializeCall e s of
        (None, s') \<Rightarrow> s'
      | (Some err, s') \<Rightarrow>
          s'\<lparr>effects := effects s' @
                [Alert (''Failed to access camera/microphone: '' @ message err), OnEndCall]\<rparr>)"

text \<open>The mount effect of lines 28 to 33, with its guard against a second run.\<close>

definition mount :: "env \<Rightarrow> vc_state \<Rightarrow> vc_state" where
  "mount e s =
     (if \<not> initializedRef s then initializeCall e (s\<lparr>initializedRef := True\<rparr>) else s)"

subsection \<open>Inbound events\<close>

text \<open>
  What can reach a mounted component from outside: the three signaling messages the
  socket listeners of lines 42 to 44 are registered for, and a remote track from the
  connectivity engine. A \<^verbatim>\<open>call-ended\<close> message runs the \<^verbatim>\<open>cleanup\<close> of the first render,
  whose \<^verbatim>\<open>localStream\<close> is \<^verbatim>\<open>null\<close>.
\<close>

datatype event =
    CallAnswer jsval
  | IceCandidate jsval
  | CallEnded
  | Track media_track

fun deliver :: "env \<Rightarrow> event \<Rightarrow> vc_state \<Rightarrow> vc_state" where
  "deliver e (CallAnswer data) s = handleCallAnswer e data s"
| "deliver e (IceCandidate data) s = handleIceCandidate e data s"
| "deliver e CallEnded s = snd (handleCallEnded e None s)"
| "deliver e (Track track) s = ontrack e track s"

subsection \<open>Invariant of the candidate buffer\<close>

text \<open>
  A handle that has no remote description has never been handed a candidate.
\<close>

definition noEarlyCandidate :: "vc_state \<Rightarrow> bool" where
  "noEarlyCandidate s =
     (case peerConnectionRef s of
        None \<Rightarrow> True
      | Some pc \<Rightarrow> (if remoteDescription pc = None then iceLog pc = [] else True))"

subsection \<open>Concrete inputs\<close>

text \<open>
  An outgoing call from user \<open>u1\<close> to user \<open>u2\<close> in a browser where every call goes
  through, except that the relay configuration request times out. The examples below
  run the model on it.
\<close>

definition exampleTracks :: media_stream where
  "exampleTracks =
     [\<lparr>track_id = ''a1'', kind = AudioKind, enabled = True\<rparr>,
      \<lparr>track_id = ''v1'', kind = VideoKind, enabled = True\<rparr>]"

definition exampleEnv :: env where
  "exampleEnv =
     \<lparr> callData =
         \<lparr> cd_type = JStr ''outgoing'', targetUserId = JStr ''u2'',
           fromUserId = JUndefined, cd_from = JUndefined, cd_offer = JUndefined,
           conversationId = JStr ''conv1'' \<rparr>,
       user = \<lparr> user_id = ''u1'', username = JStr ''alice'' \<rparr>,
       mediaDevicesAvailable = True,
       getUserMedia = Inr exampleTracks,
       turnReply = TimedOut,
       VITE_TURN_SERVER = None,
       VITE_TURN_SECRET = None,
       VITE_TURN_REALM = None,
       VITE_ICE_RELAY_ONLY = None,
       newPeerConnection = (\<lambda>config. None),
       createOffer = (\<lambda>pc. Inr (JObj [(''type'', JStr ''offer'')])),
       createAnswer = (\<lambda>pc. Inr (JObj [(''type'', JStr ''answer'')])),
       setLocalDescriptionFails = (\<lambda>pc d. None),
       setRemoteDescriptionFails = (\<lambda>pc d. None),
       addIceCandidateFails = (\<lambda>pc c. None),
       monitorFails = (\<lambda>sd stream. None),
       sampleLevel = (\<lambda>s sd. 0),
       isTypeSupported = (\<lambda>mime. True),
       newMediaRecorder = (\<lambda>tracks mime. None),
       throws = (\<lambda>s op. None) \<rparr>"

text \<open>The handle and the state that \<^verbatim>\<open>initializeCall\<close> leaves behind in that setting.\<close>

definition examplePc :: peer_connection where
  "examplePc =
     \<lparr> rtcConfig = defaultRtcConfig,
       senders = [Some ''a1'', Some ''v1''],
       transceivers = 2,
       localDescription = Some (JObj [(''type'', JStr ''offer'')]),
       remoteDescription = None,
       iceLog = [] \<rparr>"

definition exampleCalling :: vc_state where
  "exampleCalling =
     initial_state
       \<lparr> localStream := Some exampleTracks,
         peerConnectionRef := Some examplePc,
         localAudioContextRef := Some AudioContextNode,
         localAnalyserRef := Some AnalyserNode,
         mediaRecorderRef :=
           Some \<lparr>rec_state = Inactive, mimeType = ''audio/webm'',
                 rec_tracks = [''a1''], capturedFormat = ''webm''\<rparr>,
         initializedRef := True,
         effects :=
           [Emit ''get-turn-config'' JUndefined,
            Emit ''call-offer''
              (JObj [(''to'', JStr ''u2''), (''from'', JStr ''alice''),
                     (''fromUserId'', JStr ''u1''),
                     (''offer'', JObj [(''type'', JStr ''offer'')])])] \<rparr>"

definition candidateMsg :: "string \<Rightarrow> jsval" where
  "candidateMsg c = JObj [(''candidate'', JStr c)]"

definition answerMsg :: "string \<Rightarrow> jsval" where
  "answerMsg a = JObj [(''answer'', JStr a)]"

subsection \<open>Auxiliary notions\<close>

text \<open>The tracks of the aggregated remote stream; none before the first track arrives.\<close>

definition aggregated :: "vc_state \<Rightarrow> media_track list" where
  "aggregated s = (case remoteMediaStreamRef s of None \<Rightarrow> [] | Some ms \<Rightarrow> getTracks ms)"

text \<open>The names of the fields of an object, in the order they were written.\<close>

fun js_keys :: "jsval \<Rightarrow> string list" where
  "js_keys (JObj kvs) = map fst kvs"
| "js_keys v = []"

text \<open>
  Further invocations of \<^verbatim>\<open>cleanup\<close>, one after the other, each from whichever closure and
  in whichever environment it is triggered. (Handlers do not interleave, so invocations
  triggered at the same moment run in some order.)
\<close>

fun cleanups :: "(env \<times> media_stream option) list \<Rightarrow> vc_state \<Rightarrow> vc_state" where
  "cleanups [] s = s"
| "cleanups (call # calls) s = cleanups calls (snd (cleanup (fst call) (snd call) s))"

text \<open>
  What the teardown steps before the final reset may touch: the log, the two video
  elements, the recorder and the recording flag. Every other cell is as it was.
\<close>

text \<open>
  The teardown sequence, step by step as the specification orders it: the calls that one
  run of \<^verbatim>\<open>cleanup\<close> makes on the browser objects of the state \<open>s\<close> it starts from, when
  none of them throws. \<open>closureStream\<close> is the local stream the closure holds.
\<close>

definition senderOps :: "nat \<times> string option \<Rightarrow> ext_op list" where
  "senderOps sender =
     [ReplaceTrackNull (fst sender)]
     @ (case snd sender of None \<Rightarrow> [] | Some tid \<Rightarrow> [TrackStop tid])
     @ [RemoveTrack (fst sender)]"

definition transceiverOps :: "nat \<Rightarrow> ext_op list" where
  "transceiverOps j = [TransceiverInactive j, TransceiverStop j]"

definition teardownOps :: "media_stream option \<Rightarrow> vc_state \<Rightarrow> ext_op list" where
  "teardownOps closureStream s =
     (case remoteVideoRef s of None \<Rightarrow> [] | Some v \<Rightarrow> [DetachVideo Remote])
     @ (case localVideoRef s of None \<Rightarrow> [] | Some v \<Rightarrow> [DetachVideo Local])
     @ (case mediaRecorderRef s of
          None \<Rightarrow> []
        | Some r \<Rightarrow> if rec_state r = Recording then [RecorderStop] else [])
     @ (case peerConnectionRef s of
          None \<Rightarrow> []
        | Some pc \<Rightarrow>
            [GetSenders] @ concat (map senderOps (enumerate 0 (senders pc)))
            @ [GetTransceivers] @ concat (map transceiverOps [0..<transceivers pc]))
     @ (case closureStream of
          None \<Rightarrow> []
        | Some ms \<Rightarrow> map (\<lambda>track. TrackStop (track_id track)) (getTracks ms))
     @ (case peerConnectionRef s of None \<Rightarrow> [] | Some pc \<Rightarrow> [ClearHandlers, PcClose])
     @ (case localAudioContextRef s of None \<Rightarrow> [] | Some ctx \<Rightarrow> [AudioContextClose Local])
     @ (case remoteAudioContextRef s of None \<Rightarrow> [] | Some ctx \<Rightarrow> [AudioContextClose Remote])"

text \<open>
  A piece of code, started in \<open>s\<close> and ended with result \<open>r\<close>, performs the calls \<open>ops\<close>:
  what it adds to the log is a subsequence of \<open>ops\<close>, in order (a call that throws is
  missing, and so is what an exception skips), and it is all of \<open>ops\<close>, with no error
  left, in an environment where no call throws.
\<close>

definition performs :: "env \<Rightarrow> vc_state \<Rightarrow> error option \<times> vc_state \<Rightarrow> ext_op list \<Rightarrow> bool" where
  "performs e s r ops =
     (\<exists>d. effects (snd r) = effects s @ d \<and> subseq d ops
          \<and> ((\<forall>s' op. throws e s' op = None) \<longrightarrow> d = ops \<and> fst r = None))"

definition teardownFrame :: "vc_state \<Rightarrow> vc_state \<Rightarrow> bool" where
  "teardownFrame s s' =
     (s' = s\<lparr>effects := effects s', localVideoRef := localVideoRef s',
              remoteVideoRef := remoteVideoRef s', mediaRecorderRef := mediaRecorderRef s',
              isRecording := isRecording s'\<rparr>)"

text \<open>
  The invariant on a handle by itself, and on a handle carried beside the state whose
  ref points to it (as in \<open>offerOutgoing\<close> and \<open>answerIncoming\<close>).
\<close>

definition pcOk :: "peer_connection \<Rightarrow> bool" where
  "pcOk pc = (if remoteDescription pc = None then iceLog pc = [] else True)"

definition pairOk :: "peer_connection \<times> vc_state \<Rightarrow> bool" where
  "pairOk ps = (peerConnectionRef (snd ps) = Some (fst ps) \<and> pcOk (fst ps))"


subsection \<open>Answers and the engine's signaling rules\<close>

text \<open>
  A session description is an answer when its \<^verbatim>\<open>type\<close> says so.
\<close>

definition isAnswer :: "jsval \<Rightarrow> bool" where
  "isAnswer d = (get_prop d ''type'' = JStr ''answer'')"






text \<open>
  Variations of the example: an engine that follows that rule and accepts everything
  else, a \<^verbatim>\<open>call-answer\<close> message with an answer in it, a deployment with a static relay
  server, and a recorded chunk.
\<close>

definition standardEnv :: env where
  "standardEnv =
     exampleEnv
       \<lparr>setRemoteDescriptionFails :=
          (\<lambda>pc d. if isAnswer d \<and> (remoteDescription pc \<noteq> None \<or> localDescription pc = None)
                   then Some (Error ''InvalidStateError'') else None)\<rparr>"


definition staticTurnEnv :: env where
  "staticTurnEnv =
     exampleEnv\<lparr>VITE_TURN_SERVER := Some ''turn.example.org:3478'',
                VITE_TURN_SECRET := Some ''s3cret''\<rparr>"

definition exampleChunk :: blob where
  "exampleChunk = \<lparr>blob_size = 4, dataURL = ''data:audio/webm;base64,AAAA''\<rparr>"

section \<open>Properties\<close>

subsection \<open>The flush loop\<close>

lemma snd_addIceCandidate:
  "snd (addIceCandidate e c pc) =
     pc\<lparr>iceLog := iceLog pc @ [(c, addIceCandidateFails e pc c = None)]\<rparr>"
  by (cases "addIceCandidateFails e pc c") (simp_all add: addIceCandidate_def)

lemma applyBuffered_step:
  "applyBuffered e (c # cs) pc = applyBuffered e cs (snd (addIceCandidate e c pc))"
  by (simp split: prod.splits option.splits)

lemma applyBuffered_no_error: "fst (applyBuffered e cs pc) = None"
  by (induction cs arbitrary: pc) (simp_all only: applyBuffered_step applyBuffered.simps(1) fst_conv)

lemma applyBuffered_only_log:
  "\<exists>l. snd (applyBuffered e cs pc) = pc\<lparr>iceLog := iceLog pc @ l\<rparr> \<and> map fst l = cs"
proof (induction cs arbitrary: pc)
  case Nil
  show ?case by simp
next
  case (Cons c cs)
  define b where "b = (addIceCandidateFails e pc c = None)"
  define pc1 where "pc1 = pc\<lparr>iceLog := iceLog pc @ [(c, b)]\<rparr>"
  have step: "applyBuffered e (c # cs) pc = applyBuffered e cs pc1"
    by (simp only: applyBuffered_step snd_addIceCandidate pc1_def b_def)
  from Cons.IH [of pc1] obtain l where
    l: "snd (applyBuffered e cs pc1) = pc1\<lparr>iceLog := iceLog pc1 @ l\<rparr>" "map fst l = cs"
    by blast
  have "snd (applyBuffered e (c # cs) pc) = pc\<lparr>iceLog := iceLog pc @ ((c, b) # l)\<rparr>"
    unfolding step using l(1) by (simp add: pc1_def)
  moreover have "map fst ((c, b) # l) = c # cs"
    using l(2) by simp
  ultimately show ?case by (intro exI [of _ "(c, b) # l"] conjI)
qed

lemma applyBuffered_eq: "applyBuffered e cs pc = (None, snd (applyBuffered e cs pc))"
  using applyBuffered_no_error [of e cs pc] by (simp add: prod_eq_iff)

lemma applyBuffered_log:
  "map fst (iceLog (snd (applyBuffered e cs pc))) = map fst (iceLog pc) @ cs"
  using applyBuffered_only_log [of e cs pc] by auto

lemma applyBuffered_remote:
  "remoteDescription (snd (applyBuffered e cs pc)) = remoteDescription pc"
  using applyBuffered_only_log [of e cs pc] by auto

lemma applyBuffered_local:
  "localDescription (snd (applyBuffered e cs pc)) = localDescription pc"
  using applyBuffered_only_log [of e cs pc] by auto

lemma flushPending_eq:
  "flushPending e pc cs = (None, snd (applyBuffered e cs pc), [])"
proof (cases "cs = []")
  case True
  then show ?thesis by (simp add: flushPending_def)
next
  case False
  then have "flushPending e pc cs =
          (case applyBuffered e cs pc of
             (Some err, pc') \<Rightarrow> (Some err, pc', cs) | (None, pc') \<Rightarrow> (None, pc', []))"
    by (simp add: flushPending_def)
  also have "\<dots> = (None, snd (applyBuffered e cs pc), [])"
    by (subst applyBuffered_eq) simp
  finally show ?thesis .
qed

text \<open>
  C5. While the buffered candidates are flushed, a candidate whose application fails is
  logged and skipped, and the flush goes on: whichever candidates the engine refuses
  (the environment \<open>e\<close> is arbitrary), every candidate of the buffer \<open>cs\<close> is passed to
  \<^verbatim>\<open>addIceCandidate\<close>, in buffer order, after whatever the handle had been given before;
  no error leaves the loop or the block around it, and the buffer is empty afterwards.
  Both places that flush, in \<^verbatim>\<open>handleCallAnswer\<close> and in \<^verbatim>\<open>initializeCall\<close>, run this block.
\<close>

theorem flush_absorbs_failures:
  "fst (flushPending e pc cs) = None
   \<and> snd (snd (flushPending e pc cs)) = []
   \<and> map fst (iceLog (fst (snd (flushPending e pc cs)))) = map fst (iceLog pc) @ cs
   \<and> fst (applyBuffered e cs pc) = None
   \<and> map fst (iceLog (snd (applyBuffered e cs pc))) = map fst (iceLog pc) @ cs"
  by (simp add: flushPending_eq applyBuffered_log applyBuffered_no_error)

text \<open>
  For instance, with an engine that refuses the candidate \<open>bad\<close>, the two candidates
  around it are applied all the same.
\<close>

lemma flush_example:
  "flushPending
     (exampleEnv\<lparr>addIceCandidateFails :=
                   (\<lambda>pc c. if c = JStr ''bad'' then Some (Error ''OperationError'') else None)\<rparr>)
     (examplePc\<lparr>remoteDescription := Some (JStr ''answer'')\<rparr>)
     [JStr ''c1'', JStr ''bad'', JStr ''c3'']
   = (None,
      examplePc\<lparr>remoteDescription := Some (JStr ''answer''),
                iceLog := [(JStr ''c1'', True), (JStr ''bad'', False), (JStr ''c3'', True)]\<rparr>,
      [])"
  by (simp add: flushPending_def addIceCandidate_def exampleEnv_def examplePc_def)

subsection \<open>The signaling handlers, case by case\<close>

lemma handleIceCandidate_buffers:
  assumes "peerConnectionRef s = Some pc" and "remoteDescription pc = None"
    and "truthy (get_prop m ''candidate'')"
  shows "handleIceCandidate e m s =
           s\<lparr>pendingRemoteIceCandidatesRef :=
                pendingRemoteIceCandidatesRef s @ [get_prop m ''candidate'']\<rparr>"
  using assms by (simp add: handleIceCandidate_def)

lemma handleIceCandidate_applies:
  assumes "peerConnectionRef s = Some pc" and "remoteDescription pc \<noteq> None"
    and "truthy (get_prop m ''candidate'')"
  shows "handleIceCandidate e m s =
           s\<lparr>peerConnectionRef := Some (snd (addIceCandidate e (get_prop m ''candidate'') pc))\<rparr>"
  using assms by (auto simp: handleIceCandidate_def split: prod.splits option.splits)

lemma handleIceCandidate_ignores:
  assumes "peerConnectionRef s = None \<or> \<not> truthy (get_prop m ''candidate'')"
  shows "handleIceCandidate e m s = s"
  using assms by (auto simp: handleIceCandidate_def split: option.splits)

lemma fold_handleIceCandidate_buffers:
  assumes "peerConnectionRef s = Some pc" and "remoteDescription pc = None"
    and "list_all (\<lambda>m. truthy (get_prop m ''candidate'')) msgs"
  shows "fold (handleIceCandidate e) msgs s =
           s\<lparr>pendingRemoteIceCandidatesRef :=
                pendingRemoteIceCandidatesRef s @ map (\<lambda>m. get_prop m ''candidate'') msgs\<rparr>"
  using assms
proof (induction msgs arbitrary: s)
  case Nil
  show ?case by simp
next
  case (Cons m msgs)
  let ?s1 = "s\<lparr>pendingRemoteIceCandidatesRef :=
                pendingRemoteIceCandidatesRef s @ [get_prop m ''candidate'']\<rparr>"
  have m: "handleIceCandidate e m s = ?s1"
    using Cons.prems by (simp add: handleIceCandidate_buffers)
  have "fold (handleIceCandidate e) msgs ?s1 =
          ?s1\<lparr>pendingRemoteIceCandidatesRef :=
                pendingRemoteIceCandidatesRef ?s1 @ map (\<lambda>m. get_prop m ''candidate'') msgs\<rparr>"
    using Cons.prems by (intro Cons.IH) simp_all
  then show ?case by (simp add: m)
qed

lemma handleCallAnswer_accepted:
  assumes "peerConnectionRef s = Some pc" and "truthy (get_prop data ''answer'')"
    and "setRemoteDescriptionFails e pc (get_prop data ''answer'') = None"
  shows "handleCallAnswer e data s =
           s\<lparr>peerConnectionRef :=
                Some (snd (applyBuffered e (pendingRemoteIceCandidatesRef s)
                             (pc\<lparr>remoteDescription := Some (get_prop data ''answer'')\<rparr>))),
              pendingRemoteIceCandidatesRef := []\<rparr>"
  using assms by (simp add: handleCallAnswer_def setRemoteDescription_def flushPending_eq)

lemma handleCallAnswer_rejected:
  assumes "peerConnectionRef s = Some pc"
    and "setRemoteDescriptionFails e pc (get_prop data ''answer'') = Some err"
  shows "handleCallAnswer e data s = s"
  using assms by (simp add: handleCallAnswer_def setRemoteDescription_def)

lemma handleCallAnswer_ignores:
  assumes "peerConnectionRef s = None \<or> \<not> truthy (get_prop data ''answer'')"
  shows "handleCallAnswer e data s = s"
  using assms by (auto simp: handleCallAnswer_def split: option.splits)

subsection \<open>Cleanup\<close>

lemma fst_catchAll: "fst (catchAll r) = None"
  by (cases r, cases "fst r") (auto simp: catchAll_def)

lemma snd_catchAll: "snd (catchAll r) = snd r"
  by (cases r, cases "fst r") (auto simp: catchAll_def)

lemma andThen_ok: "fst r = None \<Longrightarrow> andThen r f = f (snd r)"
  by (cases r) (simp add: andThen_def)

lemma andThen_error: "fst r = Some err \<Longrightarrow> andThen r f = r"
  by (cases r) (simp add: andThen_def)

lemma frame_refl: "teardownFrame s s"
  by (simp add: teardownFrame_def)

lemma frame_trans: "teardownFrame s s' \<Longrightarrow> teardownFrame s' s'' \<Longrightarrow> teardownFrame s s''"
  unfolding teardownFrame_def
  by (cases s, cases s', cases s'') simp

lemma frame_andThen:
  assumes "teardownFrame s (snd r)" and "\<And>s'. teardownFrame s' (snd (f s'))"
  shows "teardownFrame s (snd (andThen r f))"
proof (cases "fst r")
  case None
  have "teardownFrame s (snd (f (snd r)))"
    using assms(1) assms(2) [of "snd r"] by (rule frame_trans)
  with None show ?thesis by (simp add: andThen_ok)
next
  case (Some err)
  then show ?thesis using assms(1) by (simp add: andThen_error)
qed

lemma frame_catchAll: "teardownFrame s (snd r) \<Longrightarrow> teardownFrame s (snd (catchAll r))"
  by (simp add: snd_catchAll)

lemma frame_attempt: "teardownFrame s (snd (attempt e op s))"
  by (cases "throws e s op") (simp_all add: attempt_def teardownFrame_def)

lemma frame_forEach:
  assumes "\<And>x s'. teardownFrame s' (snd (f x s'))"
  shows "teardownFrame s (snd (forEach f xs s))"
proof (induction xs arbitrary: s)
  case Nil
  show ?case by (simp add: frame_refl)
next
  case (Cons x xs)
  show ?case
    unfolding forEach.simps
    by (rule frame_andThen) (rule assms, rule Cons.IH)
qed

lemma fst_andThen:
  "fst r = None \<Longrightarrow> (\<And>s'. fst (f s') = None) \<Longrightarrow> fst (andThen r f) = None"
  by (simp add: andThen_ok)

lemma detachVideo_ok: "fst (detachVideo e sd s) = None"
  by (simp add: detachVideo_def fst_catchAll split: option.splits)

lemma detachVideo_frame: "teardownFrame s (snd (detachVideo e sd s))"
  by (cases "throws e s (DetachVideo sd)")
     (auto simp: detachVideo_def attempt_def andThen_def catchAll_def teardownFrame_def
           split: option.splits)

lemma stopAudioRecording_ok: "fst (stopAudioRecording s) = None"
  by (simp add: stopAudioRecording_def split: option.splits)

lemma stopAudioRecording_frame: "teardownFrame s (snd (stopAudioRecording s))"
  by (simp add: stopAudioRecording_def teardownFrame_def split: option.splits)

lemma stopSender_ok: "fst (stopSender e sender s) = None"
  by (simp add: stopSender_def fst_andThen fst_catchAll split: option.splits)

lemma stopSender_frame: "teardownFrame s (snd (stopSender e sender s))"
  unfolding stopSender_def
  by (intro frame_andThen frame_catchAll frame_attempt)
     (auto simp: frame_refl intro: frame_catchAll frame_attempt split: option.splits)

lemma stopTransceiver_ok: "fst (stopTransceiver e j s) = None"
  by (simp add: stopTransceiver_def fst_andThen fst_catchAll)

lemma stopTransceiver_frame: "teardownFrame s (snd (stopTransceiver e j s))"
  unfolding stopTransceiver_def
  by (intro frame_andThen frame_catchAll frame_attempt)

lemma stopSendersAndTransceivers_ok: "fst (stopSendersAndTransceivers e s) = None"
  by (simp add: stopSendersAndTransceivers_def fst_catchAll split: option.splits)

lemma stopSendersAndTransceivers_frame:
  "teardownFrame s (snd (stopSendersAndTransceivers e s))"
  unfolding stopSendersAndTransceivers_def
  by (auto simp: frame_refl split: option.splits
      intro!: frame_catchAll frame_andThen frame_attempt frame_forEach
              stopSender_frame stopTransceiver_frame)

lemma stopLocalTracks_ok: "fst (stopLocalTracks e ls s) = None"
  by (simp add: stopLocalTracks_def fst_catchAll)

lemma stopLocalTracks_frame: "teardownFrame s (snd (stopLocalTracks e ls s))"
  unfolding stopLocalTracks_def
  by (auto simp: frame_refl split: option.splits
      intro!: frame_catchAll frame_forEach frame_attempt)

lemma closePeerConnection_ok: "fst (closePeerConnection e s) = None"
  by (simp add: closePeerConnection_def fst_catchAll split: option.splits)

lemma closePeerConnection_frame: "teardownFrame s (snd (closePeerConnection e s))"
  unfolding closePeerConnection_def
  by (auto simp: frame_refl split: option.splits
      intro!: frame_catchAll frame_andThen frame_attempt)

lemma closeAudioContext_ok: "fst (closeAudioContext e sd s) = None"
  by (simp add: closeAudioContext_def fst_catchAll)

lemma closeAudioContext_frame: "teardownFrame s (snd (closeAudioContext e sd s))"
  unfolding closeAudioContext_def
  by (auto simp: frame_refl split: option.splits intro!: frame_catchAll frame_attempt)

lemma cleanup_done: "hasCleanedUpRef s \<Longrightarrow> cleanup e ls s = (None, s)"
  by (simp add: cleanup_def)

lemma cleanup_first:
  assumes "\<not> hasCleanedUpRef s"
  shows "\<exists>s8. cleanup e ls s = (None, resetSession s8)
              \<and> teardownFrame (s\<lparr>hasCleanedUpRef := True\<rparr>) s8"
proof -
  define s0 where "s0 = s\<lparr>hasCleanedUpRef := True\<rparr>"
  define s1 where "s1 = snd (detachVideo e Remote s0)"
  define s2 where "s2 = snd (detachVideo e Local s1)"
  define s3 where "s3 = snd (stopAudioRecording s2)"
  define s4 where "s4 = snd (stopSendersAndTransceivers e s3)"
  define s5 where "s5 = snd (stopLocalTracks e ls s4)"
  define s6 where "s6 = snd (closePeerConnection e s5)"
  define s7 where "s7 = snd (closeAudioContext e Local s6)"
  define s8 where "s8 = snd (closeAudioContext e Remote s7)"
  have "cleanup e ls s = (None, resetSession s8)"
    using assms
    by (simp add: cleanup_def andThen_ok detachVideo_ok stopAudioRecording_ok
        stopSendersAndTransceivers_ok stopLocalTracks_ok closePeerConnection_ok
        closeAudioContext_ok s0_def s1_def s2_def s3_def s4_def s5_def s6_def s7_def s8_def)
  moreover have "teardownFrame s0 s8"
  proof -
    have "teardownFrame s0 s1" by (simp add: s1_def detachVideo_frame)
    then have "teardownFrame s0 s2"
      by (rule frame_trans) (simp add: s2_def detachVideo_frame)
    then have "teardownFrame s0 s3"
      by (rule frame_trans) (simp add: s3_def stopAudioRecording_frame)
    then have "teardownFrame s0 s4"
      by (rule frame_trans) (simp add: s4_def stopSendersAndTransceivers_frame)
    then have "teardownFrame s0 s5"
      by (rule frame_trans) (simp add: s5_def stopLocalTracks_frame)
    then have "teardownFrame s0 s6"
      by (rule frame_trans) (simp add: s6_def closePeerConnection_frame)
    then have "teardownFrame s0 s7"
      by (rule frame_trans) (simp add: s7_def closeAudioContext_frame)
    then show ?thesis
      by (rule frame_trans) (simp add: s8_def closeAudioContext_frame)
  qed
  ultimately show ?thesis unfolding s0_def by blast
qed

lemma frame_hasCleanedUp: "teardownFrame s s' \<Longrightarrow> hasCleanedUpRef s' = hasCleanedUpRef s"
  unfolding teardownFrame_def by (cases s, cases s') simp

lemma cleanup_no_error: "fst (cleanup e ls s) = None"
  using cleanup_done [of s e ls] cleanup_first [of s e ls] by (cases "hasCleanedUpRef s") auto

lemma cleanup_marks: "hasCleanedUpRef (snd (cleanup e ls s))"
proof (cases "hasCleanedUpRef s")
  case True
  then show ?thesis by (simp add: cleanup_done)
next
  case False
  from cleanup_first [OF False, of e ls] obtain s8 where
    s8: "cleanup e ls s = (None, resetSession s8)"
        "teardownFrame (s\<lparr>hasCleanedUpRef := True\<rparr>) s8"
    by blast
  from s8(2) have "hasCleanedUpRef s8" by (simp add: frame_hasCleanedUp)
  then show ?thesis by (simp add: s8(1) resetSession_def)
qed

lemma cleanup_again: "cleanup e' ls' (snd (cleanup e ls s)) = (None, snd (cleanup e ls s))"
  by (rule cleanup_done) (rule cleanup_marks)

lemma cleanups_done: "hasCleanedUpRef s \<Longrightarrow> cleanups calls s = s"
  by (induction calls) (simp_all add: cleanup_done)

subsection \<open>The teardown calls of the first invocation\<close>

lemma frame_handle: "teardownFrame s s' \<Longrightarrow> peerConnectionRef s' = peerConnectionRef s"
  unfolding teardownFrame_def by (cases s, cases s') simp

lemma performs_attempt: "performs e s (attempt e op s) [op]"
proof (cases "throws e s op")
  case None
  then show ?thesis by (auto simp: performs_def attempt_def)
next
  case (Some err)
  then have "effects (snd (attempt e op s)) = effects s @ []" "fst (attempt e op s) = Some err"
    by (simp_all add: attempt_def)
  moreover have "\<not> (\<forall>s' op. throws e s' op = None)" using Some by auto
  ultimately show ?thesis unfolding performs_def by (intro exI [of _ "[]"]) simp
qed

lemma performs_pure: "effects s' = effects s \<Longrightarrow> performs e s (None, s') []"
  by (simp add: performs_def)

lemma performs_andThen:
  assumes "performs e s r a" and "performs e (snd r) (f (snd r)) b"
  shows "performs e s (andThen r f) (a @ b)"
proof -
  from assms(1) obtain d1 where d1: "effects (snd r) = effects s @ d1" "subseq d1 a"
    "(\<forall>s' op. throws e s' op = None) \<longrightarrow> d1 = a \<and> fst r = None"
    unfolding performs_def by blast
  from assms(2) obtain d2 where d2: "effects (snd (f (snd r))) = effects (snd r) @ d2" "subseq d2 b"
    "(\<forall>s' op. throws e s' op = None) \<longrightarrow> d2 = b \<and> fst (f (snd r)) = None"
    unfolding performs_def by blast
  show ?thesis
  proof (cases "fst r")
    case None
    then have eq: "andThen r f = f (snd r)" by (rule andThen_ok)
    have "effects (snd (andThen r f)) = effects s @ (d1 @ d2)"
      by (simp add: eq d1(1) d2(1))
    moreover have "subseq (d1 @ d2) (a @ b)"
      using d1(2) d2(2) by (rule list_emb_append_mono)
    moreover have "(\<forall>s' op. throws e s' op = None) \<longrightarrow> d1 @ d2 = a @ b \<and> fst (andThen r f) = None"
      using d1(3) d2(3) by (simp add: eq)
    ultimately show ?thesis unfolding performs_def by blast
  next
    case (Some err)
    then have eq: "andThen r f = r" by (rule andThen_error)
    have "subseq d1 (a @ b)" using d1(2) by (rule list_emb_prefix)
    moreover have "(\<forall>s' op. throws e s' op = None) \<longrightarrow> d1 = a @ b \<and> fst (andThen r f) = None"
      using d1(3) Some by auto
    ultimately show ?thesis unfolding performs_def eq using d1(1) by blast
  qed
qed

lemma performs_catchAll: "performs e s r ops \<Longrightarrow> performs e s (catchAll r) ops"
  unfolding performs_def by (simp add: snd_catchAll fst_catchAll) blast

lemma performs_forEach:
  assumes "\<And>x s'. performs e s' (f x s') (g x)"
  shows "performs e s (forEach f xs s) (concat (map g xs))"
proof (induction xs arbitrary: s)
  case Nil
  show ?case by (simp add: performs_pure)
next
  case (Cons x xs)
  have "performs e s (andThen (f x s) (forEach f xs)) (g x @ concat (map g xs))"
    by (rule performs_andThen) (rule assms, rule Cons.IH)
  then show ?case by simp
qed

lemma performs_nil_andThen:
  "performs e s r [] \<Longrightarrow> performs e (snd r) (f (snd r)) b \<Longrightarrow> performs e s (andThen r f) b"
  using performs_andThen [of e s r "[]" f b] by simp

lemma detachVideo_performs:
  "performs e s (detachVideo e sd s)
     (case (if sd = Remote then remoteVideoRef s else localVideoRef s) of
        None \<Rightarrow> [] | Some v \<Rightarrow> [DetachVideo sd])"
proof (cases "if sd = Remote then remoteVideoRef s else localVideoRef s")
  case None
  then show ?thesis by (simp add: detachVideo_def performs_pure)
next
  case (Some v)
  have "performs e s
          (andThen (attempt e (DetachVideo sd) s)
             (\<lambda>s'. (None, (if sd = Remote
                            then s'\<lparr>remoteVideoRef := Some (v\<lparr>srcObject := None\<rparr>)\<rparr>
                            else s'\<lparr>localVideoRef := Some (v\<lparr>srcObject := None\<rparr>)\<rparr>))))
          ([DetachVideo sd] @ [])"
    by (rule performs_andThen) (simp_all add: performs_attempt performs_pure)
  then show ?thesis
    using Some by (simp add: detachVideo_def performs_catchAll)
qed

lemma detachVideo_keeps:
  "localVideoRef (snd (detachVideo e Remote s)) = localVideoRef s"
  "mediaRecorderRef (snd (detachVideo e sd s)) = mediaRecorderRef s"
  by (cases "throws e s (DetachVideo Remote)"; cases "throws e s (DetachVideo sd)";
      auto simp: detachVideo_def attempt_def andThen_def catchAll_def split: option.splits)+

lemma stopAudioRecording_performs:
  "performs e s (stopAudioRecording s)
     (case mediaRecorderRef s of
        None \<Rightarrow> [] | Some r \<Rightarrow> if rec_state r = Recording then [RecorderStop] else [])"
  by (auto simp: stopAudioRecording_def performs_def split: option.splits)

lemma stopSender_performs: "performs e s (stopSender e sender s) (senderOps sender)"
proof -
  have "performs e s (stopSender e sender s)
          ([ReplaceTrackNull (fst sender)]
           @ ((case snd sender of None \<Rightarrow> [] | Some tid \<Rightarrow> [TrackStop tid])
              @ [RemoveTrack (fst sender)]))"
    unfolding stopSender_def
    by (intro performs_andThen performs_catchAll performs_attempt)
       (auto simp: performs_pure intro: performs_catchAll performs_attempt split: option.splits)
  then show ?thesis by (simp add: senderOps_def)
qed

lemma stopTransceiver_performs: "performs e s (stopTransceiver e j s) (transceiverOps j)"
proof -
  have "performs e s (stopTransceiver e j s) ([TransceiverInactive j] @ [TransceiverStop j])"
    unfolding stopTransceiver_def
    by (intro performs_andThen performs_catchAll performs_attempt)
  then show ?thesis by (simp add: transceiverOps_def)
qed

lemma stopSendersAndTransceivers_performs:
  "performs e s (stopSendersAndTransceivers e s)
     (case peerConnectionRef s of
        None \<Rightarrow> []
      | Some pc \<Rightarrow>
          [GetSenders] @ concat (map senderOps (enumerate 0 (senders pc)))
          @ [GetTransceivers] @ concat (map transceiverOps [0..<transceivers pc]))"
proof (cases "peerConnectionRef s")
  case None
  then show ?thesis by (simp add: stopSendersAndTransceivers_def performs_pure)
next
  case (Some pc)
  have "performs e s
          (catchAll
            (andThen (attempt e GetSenders s)
               (\<lambda>s1. andThen (forEach (stopSender e) (enumerate 0 (senders pc)) s1)
                  (\<lambda>s2. andThen (attempt e GetTransceivers s2)
                     (\<lambda>s3. forEach (stopTransceiver e) [0..<transceivers pc] s3)))))
          ([GetSenders] @ (concat (map senderOps (enumerate 0 (senders pc)))
           @ ([GetTransceivers] @ concat (map transceiverOps [0..<transceivers pc]))))"
    by (intro performs_catchAll performs_andThen performs_attempt performs_forEach
        stopSender_performs stopTransceiver_performs)
  then show ?thesis using Some by (simp add: stopSendersAndTransceivers_def)
qed

lemma stopLocalTracks_performs:
  "performs e s (stopLocalTracks e ls s)
     (case ls of None \<Rightarrow> [] | Some ms \<Rightarrow> map (\<lambda>track. TrackStop (track_id track)) (getTracks ms))"
proof (cases ls)
  case None
  then show ?thesis by (simp add: stopLocalTracks_def performs_catchAll performs_pure)
next
  case (Some ms)
  have "performs e s
          (forEach (\<lambda>track s'. catchAll (attempt e (TrackStop (track_id track)) s')) (getTracks ms) s)
          (concat (map (\<lambda>track. [TrackStop (track_id track)]) (getTracks ms)))"
    by (intro performs_forEach performs_catchAll performs_attempt)
  moreover have "concat (map (\<lambda>track. [TrackStop (track_id track)]) xs)
                   = map (\<lambda>track. TrackStop (track_id track)) xs" for xs :: "media_track list"
    by (induction xs) simp_all
  ultimately show ?thesis using Some by (simp add: stopLocalTracks_def performs_catchAll)
qed

lemma closePeerConnection_performs:
  "performs e s (closePeerConnection e s)
     (case peerConnectionRef s of None \<Rightarrow> [] | Some pc \<Rightarrow> [ClearHandlers, PcClose])"
proof (cases "peerConnectionRef s")
  case None
  then show ?thesis by (simp add: closePeerConnection_def performs_pure)
next
  case (Some pc)
  have "performs e s (catchAll (andThen (attempt e ClearHandlers s) (\<lambda>s1. attempt e PcClose s1)))
          ([ClearHandlers] @ [PcClose])"
    by (intro performs_catchAll performs_andThen performs_attempt)
  then show ?thesis using Some by (simp add: closePeerConnection_def)
qed

lemma closeAudioContext_performs:
  "performs e s (closeAudioContext e sd s)
     (case (if sd = Local then localAudioContextRef s else remoteAudioContextRef s) of
        None \<Rightarrow> [] | Some ctx \<Rightarrow> [AudioContextClose sd])"
  by (cases "if sd = Local then localAudioContextRef s else remoteAudioContextRef s")
     (simp_all add: closeAudioContext_def performs_catchAll performs_pure performs_attempt)

lemma frame_contexts:
  "teardownFrame s s' \<Longrightarrow> localAudioContextRef s' = localAudioContextRef s"
  "teardownFrame s s' \<Longrightarrow> remoteAudioContextRef s' = remoteAudioContextRef s"
  unfolding teardownFrame_def by (cases s, cases s', simp)+

lemma cleanup_performs:
  assumes "\<not> hasCleanedUpRef s"
  shows "performs e s (cleanup e ls s) (teardownOps ls s)"
proof -
  define s0 where "s0 = s\<lparr>hasCleanedUpRef := True\<rparr>"
  define s1 where "s1 = snd (detachVideo e Remote s0)"
  define s2 where "s2 = snd (detachVideo e Local s1)"
  define s3 where "s3 = snd (stopAudioRecording s2)"
  define s4 where "s4 = snd (stopSendersAndTransceivers e s3)"
  define s5 where "s5 = snd (stopLocalTracks e ls s4)"
  define s6 where "s6 = snd (closePeerConnection e s5)"
  define s7 where "s7 = snd (closeAudioContext e Local s6)"
  define A1 where "A1 = (case remoteVideoRef s of None \<Rightarrow> [] | Some v \<Rightarrow> [DetachVideo Remote])"
  define A2 where "A2 = (case localVideoRef s of None \<Rightarrow> [] | Some v \<Rightarrow> [DetachVideo Local])"
  define A3 where "A3 = (case mediaRecorderRef s of
          None \<Rightarrow> []
        | Some r \<Rightarrow> if rec_state r = Recording then [RecorderStop] else [])"
  define A4 where "A4 = (case peerConnectionRef s of
          None \<Rightarrow> []
        | Some pc \<Rightarrow>
            [GetSenders] @ concat (map senderOps (enumerate 0 (senders pc)))
            @ [GetTransceivers] @ concat (map transceiverOps [0..<transceivers pc]))"
  define A5 where "A5 = (case ls of
          None \<Rightarrow> []
        | Some ms \<Rightarrow> map (\<lambda>track. TrackStop (track_id track)) (getTracks ms))"
  define A6 where "A6 = (case peerConnectionRef s of None \<Rightarrow> [] | Some pc \<Rightarrow> [ClearHandlers, PcClose])"
  define A7 where "A7 = (case localAudioContextRef s of None \<Rightarrow> [] | Some ctx \<Rightarrow> [AudioContextClose Local])"
  define A8 where "A8 = (case remoteAudioContextRef s of None \<Rightarrow> [] | Some ctx \<Rightarrow> [AudioContextClose Remote])"
  have f1: "teardownFrame s0 s1" by (simp add: s1_def detachVideo_frame)
  then have f2: "teardownFrame s0 s2"
    by (rule frame_trans) (simp add: s2_def detachVideo_frame)
  then have f3: "teardownFrame s0 s3"
    by (rule frame_trans) (simp add: s3_def stopAudioRecording_frame)
  then have f4: "teardownFrame s0 s4"
    by (rule frame_trans) (simp add: s4_def stopSendersAndTransceivers_frame)
  then have f5: "teardownFrame s0 s5"
    by (rule frame_trans) (simp add: s5_def stopLocalTracks_frame)
  then have f6: "teardownFrame s0 s6"
    by (rule frame_trans) (simp add: s6_def closePeerConnection_frame)
  then have f7: "teardownFrame s0 s7"
    by (rule frame_trans) (simp add: s7_def closeAudioContext_frame)
  have b1: "performs e s0 (detachVideo e Remote s0) A1"
    using detachVideo_performs [of e s0 Remote] by (simp add: A1_def s0_def)
  have b2: "performs e s1 (detachVideo e Local s1) A2"
    using detachVideo_performs [of e s1 Local]
    by (simp add: A2_def s1_def detachVideo_keeps s0_def)
  have b3: "performs e s2 (stopAudioRecording s2) A3"
    using stopAudioRecording_performs [of e s2]
    by (simp add: A3_def s2_def s1_def detachVideo_keeps s0_def)
  have b4: "performs e s3 (stopSendersAndTransceivers e s3) A4"
    using stopSendersAndTransceivers_performs [of e s3] frame_handle [OF f3]
    by (simp add: A4_def s0_def)
  have b5: "performs e s4 (stopLocalTracks e ls s4) A5"
    using stopLocalTracks_performs [of e s4 ls] by (simp add: A5_def)
  have b6: "performs e s5 (closePeerConnection e s5) A6"
    using closePeerConnection_performs [of e s5] frame_handle [OF f5]
    by (simp add: A6_def s0_def)
  have b7: "performs e s6 (closeAudioContext e Local s6) A7"
    using closeAudioContext_performs [of e s6 Local] frame_contexts(1) [OF f6]
    by (simp add: A7_def s0_def)
  have b8: "performs e s7 (closeAudioContext e Remote s7) A8"
    using closeAudioContext_performs [of e s7 Remote] frame_contexts(2) [OF f7]
    by (simp add: A8_def s0_def)
  have c8: "performs e s' (None, resetSession s') []" for s'
    by (rule performs_pure) (simp add: resetSession_def)
  have c7: "performs e s7
      (andThen (closeAudioContext e Remote s7) (\<lambda>s8. (None, resetSession s8))) (A8 @ [])"
    using b8 c8 by (rule performs_andThen)
  have c6: "performs e s6
      (andThen (closeAudioContext e Local s6)
        (\<lambda>s7. andThen (closeAudioContext e Remote s7) (\<lambda>s8. (None, resetSession s8))))
      (A7 @ A8 @ [])"
    using b7 c7 [unfolded s7_def] by (rule performs_andThen)
  have c5: "performs e s5
      (andThen (closePeerConnection e s5)
        (\<lambda>s6. andThen (closeAudioContext e Local s6)
        (\<lambda>s7. andThen (closeAudioContext e Remote s7) (\<lambda>s8. (None, resetSession s8)))))
      (A6 @ A7 @ A8 @ [])"
    using b6 c6 [unfolded s6_def] by (rule performs_andThen)
  have c4: "performs e s4
      (andThen (stopLocalTracks e ls s4)
        (\<lambda>s5. andThen (closePeerConnection e s5)
        (\<lambda>s6. andThen (closeAudioContext e Local s6)
        (\<lambda>s7. andThen (closeAudioContext e Remote s7) (\<lambda>s8. (None, resetSession s8))))))
      (A5 @ A6 @ A7 @ A8 @ [])"
    using b5 c5 [unfolded s5_def] by (rule performs_andThen)
  have c3: "performs e s3
      (andThen (stopSendersAndTransceivers e s3)
        (\<lambda>s4. andThen (stopLocalTracks e ls s4)
        (\<lambda>s5. andThen (closePeerConnection e s5)
        (\<lambda>s6. andThen (closeAudioContext e Local s6)
        (\<lambda>s7. andThen (closeAudioContext e Remote s7) (\<lambda>s8. (None, resetSession s8)))))))
      (A4 @ A5 @ A6 @ A7 @ A8 @ [])"
    using b4 c4 [unfolded s4_def] by (rule performs_andThen)
  have c2: "performs e s2
      (andThen (stopAudioRecording s2)
        (\<lambda>s3. andThen (stopSendersAndTransceivers e s3)
        (\<lambda>s4. andThen (stopLocalTracks e ls s4)
        (\<lambda>s5. andThen (closePeerConnection e s5)
        (\<lambda>s6. andThen (closeAudioContext e Local s6)
        (\<lambda>s7. andThen (closeAudioContext e Remote s7) (\<lambda>s8. (None, resetSession s8))))))))
      (A3 @ A4 @ A5 @ A6 @ A7 @ A8 @ [])"
    using b3 c3 [unfolded s3_def] by (rule performs_andThen)
  have c1: "performs e s1
      (andThen (detachVideo e Local s1)
        (\<lambda>s2. andThen (stopAudioRecording s2)
        (\<lambda>s3. andThen (stopSendersAndTransceivers e s3)
        (\<lambda>s4. andThen (stopLocalTracks e ls s4)
        (\<lambda>s5. andThen (closePeerConnection e s5)
        (\<lambda>s6. andThen (closeAudioContext e Local s6)
        (\<lambda>s7. andThen (closeAudioContext e Remote s7) (\<lambda>s8. (None, resetSession s8)))))))))
      (A2 @ A3 @ A4 @ A5 @ A6 @ A7 @ A8 @ [])"
    using b2 c2 [unfolded s2_def] by (rule performs_andThen)
  have c0: "performs e s0
      (andThen (detachVideo e Remote s0)
        (\<lambda>s1. andThen (detachVideo e Local s1)
        (\<lambda>s2. andThen (stopAudioRecording s2)
        (\<lambda>s3. andThen (stopSendersAndTransceivers e s3)
        (\<lambda>s4. andThen (stopLocalTracks e ls s4)
        (\<lambda>s5. andThen (closePeerConnection e s5)
        (\<lambda>s6. andThen (closeAudioContext e Local s6)
        (\<lambda>s7. andThen (closeAudioContext e Remote s7) (\<lambda>s8. (None, resetSession s8))))))))))
      (A1 @ A2 @ A3 @ A4 @ A5 @ A6 @ A7 @ A8 @ [])"
    using b1 c1 [unfolded s1_def] by (rule performs_andThen)
  have ops: "A1 @ A2 @ A3 @ A4 @ A5 @ A6 @ A7 @ A8 @ [] = teardownOps ls s"
    by (simp add: teardownOps_def A1_def A2_def A3_def A4_def A5_def A6_def A7_def A8_def)
  have body: "cleanup e ls s =
      andThen (detachVideo e Remote s0)
        (\<lambda>s1. andThen (detachVideo e Local s1)
        (\<lambda>s2. andThen (stopAudioRecording s2)
        (\<lambda>s3. andThen (stopSendersAndTransceivers e s3)
        (\<lambda>s4. andThen (stopLocalTracks e ls s4)
        (\<lambda>s5. andThen (closePeerConnection e s5)
        (\<lambda>s6. andThen (closeAudioContext e Local s6)
        (\<lambda>s7. andThen (closeAudioContext e Remote s7) (\<lambda>s8. (None, resetSession s8)))))))))"
    using assms by (simp add: cleanup_def s0_def)
  have start: "effects s0 = effects s" by (simp add: s0_def)
  from c0 show ?thesis
    unfolding body [symmetric] ops performs_def start .
qed

lemma resetSession_idem: "resetSession (resetSession s) = resetSession s"
  by (simp add: resetSession_def)

lemma cleanup_first_reset:
  assumes "\<not> hasCleanedUpRef s"
  shows "resetSession (snd (cleanup e ls s)) = snd (cleanup e ls s)"
proof -
  from cleanup_first [OF assms, of e ls] obtain s8 where
    "cleanup e ls s = (None, resetSession s8)" by blast
  then show ?thesis by (simp add: resetSession_idem)
qed

text \<open>
  C2. \<^verbatim>\<open>cleanup\<close> is idempotent and cannot fail. From every state \<open>s\<close>, in every
  environment and from every closure, no error leaves an invocation. The first
  invocation (the flag not yet set) does the work: it sets the flag, resets the session,
  and makes the teardown calls on the browser objects of \<open>s\<close>, each at most once and in
  the order of the teardown sequence (a call that throws, and what its exception skips,
  is missing), and all of them when none throws. An invocation that follows another
  one, whoever triggers it, returns at once and leaves the whole state, the log of
  performed calls included, exactly as the first one left it; so does any number of
  further invocations, after which the teardown calls still stand in the log once.
\<close>

theorem cleanup_idempotent:
  "fst (cleanup e ls s) = None
   \<and> cleanup e' ls' (snd (cleanup e ls s)) = (None, snd (cleanup e ls s))
   \<and> effects (snd (cleanup e' ls' (snd (cleanup e ls s)))) = effects (snd (cleanup e ls s))
   \<and> cleanups calls (snd (cleanup e ls s)) = snd (cleanup e ls s)
   \<and> hasCleanedUpRef (snd (cleanup e ls s))
   \<and> (\<not> hasCleanedUpRef s \<longrightarrow>
        resetSession (snd (cleanup e ls s)) = snd (cleanup e ls s)
        \<and> (\<exists>d. effects (snd (cleanup e ls s)) = effects s @ d \<and> subseq d (teardownOps ls s))
        \<and> ((\<forall>s' op. throws e s' op = None) \<longrightarrow>
              effects (snd (cleanup e ls s)) = effects s @ teardownOps ls s
              \<and> effects (cleanups calls (snd (cleanup e ls s))) = effects s @ teardownOps ls s))"
proof (intro conjI impI)
  assume first: "\<not> hasCleanedUpRef s"
  show "resetSession (snd (cleanup e ls s)) = snd (cleanup e ls s)"
    using first by (rule cleanup_first_reset)
  from cleanup_performs [OF first, of e ls] obtain d where
    d: "effects (snd (cleanup e ls s)) = effects s @ d" "subseq d (teardownOps ls s)"
       "(\<forall>s' op. throws e s' op = None) \<longrightarrow> d = teardownOps ls s"
    unfolding performs_def by blast
  from d(1,2) show "\<exists>d. effects (snd (cleanup e ls s)) = effects s @ d \<and> subseq d (teardownOps ls s)"
    by blast
  assume quiet: "\<forall>s' op. throws e s' op = None"
  with d(1,3) show once: "effects (snd (cleanup e ls s)) = effects s @ teardownOps ls s"
    by simp
  then show "effects (cleanups calls (snd (cleanup e ls s))) = effects s @ teardownOps ls s"
    by (simp add: cleanups_done cleanup_marks)
qed (simp_all add: cleanup_no_error cleanup_again cleanups_done cleanup_marks)


theorem cleanup_idempotent_witness:
  "\<not> hasCleanedUpRef exampleCalling
   \<and> effects (snd (cleanup exampleEnv (Some exampleTracks) exampleCalling)) =
       effects exampleCalling @
         [GetSenders,
          ReplaceTrackNull 0, TrackStop ''a1'', RemoveTrack 0,
          ReplaceTrackNull 1, TrackStop ''v1'', RemoveTrack 1,
          GetTransceivers,
          TransceiverInactive 0, TransceiverStop 0,
          TransceiverInactive 1, TransceiverStop 1,
          TrackStop ''a1'', TrackStop ''v1'',
          ClearHandlers, PcClose,
          AudioContextClose Local]
   \<and> effects (cleanups [(exampleEnv, None), (exampleEnv, Some exampleTracks)]
                (snd (cleanup exampleEnv (Some exampleTracks) exampleCalling))) =
       effects exampleCalling @
         [GetSenders,
          ReplaceTrackNull 0, TrackStop ''a1'', RemoveTrack 0,
          ReplaceTrackNull 1, TrackStop ''v1'', RemoveTrack 1,
          GetTransceivers,
          TransceiverInactive 0, TransceiverStop 0,
          TransceiverInactive 1, TransceiverStop 1,
          TrackStop ''a1'', TrackStop ''v1'',
          ClearHandlers, PcClose,
          AudioContextClose Local]
   \<and> peerConnectionRef (snd (cleanup exampleEnv (Some exampleTracks) exampleCalling)) = None"
proof -
  have first: "\<not> hasCleanedUpRef exampleCalling"
    by (simp add: exampleCalling_def initial_state_def)
  have quiet: "\<forall>s' op. throws exampleEnv s' op = None"
    by (simp add: exampleEnv_def)
  have ops: "teardownOps (Some exampleTracks) exampleCalling =
         [GetSenders,
          ReplaceTrackNull 0, TrackStop ''a1'', RemoveTrack 0,
          ReplaceTrackNull 1, TrackStop ''v1'', RemoveTrack 1,
          GetTransceivers,
          TransceiverInactive 0, TransceiverStop 0,
          TransceiverInactive 1, TransceiverStop 1,
          TrackStop ''a1'', TrackStop ''v1'',
          ClearHandlers, PcClose,
          AudioContextClose Local]"
    by (simp add: teardownOps_def exampleCalling_def initial_state_def examplePc_def
        exampleTracks_def senderOps_def transceiverOps_def getTracks_def upt_rec numeral_2_eq_2)
  note run = cleanup_idempotent
      [of exampleEnv "Some exampleTracks" exampleCalling undefined undefined
          "[(exampleEnv, None), (exampleEnv, Some exampleTracks)]"]
  note firstrun = run [THEN conjunct2, THEN conjunct2, THEN conjunct2, THEN conjunct2,
      THEN conjunct2, THEN mp, OF first]
  note calls = firstrun [THEN conjunct2, THEN conjunct2, THEN mp, OF quiet]
  have reset: "peerConnectionRef (snd (cleanup exampleEnv (Some exampleTracks) exampleCalling)) = None"
    by (subst firstrun [THEN conjunct1, symmetric]) (simp add: resetSession_def)
  from first calls [THEN conjunct1] calls [THEN conjunct2] reset show ?thesis
    unfolding ops by (intro conjI)
qed

text \<open>
  C9. When the first invocation of \<^verbatim>\<open>cleanup\<close> is over, from whatever state it started:
  no local stream, no remote stream, no connectivity handle, no aggregated remote
  stream, an empty buffer of pending candidates, the call not accepted, both audio
  levels 0, and recording off (no recorder, no chunks). The analysers are gone as well,
  so that a later animation frame of the level monitor changes nothing.
\<close>

theorem cleanup_resets:
  assumes "\<not> hasCleanedUpRef s"
  shows "fst (cleanup e ls s) = None
    \<and> localStream (snd (cleanup e ls s)) = None
    \<and> remoteStream (snd (cleanup e ls s)) = None
    \<and> peerConnectionRef (snd (cleanup e ls s)) = None
    \<and> remoteMediaStreamRef (snd (cleanup e ls s)) = None
    \<and> pendingRemoteIceCandidatesRef (snd (cleanup e ls s)) = []
    \<and> callAccepted (snd (cleanup e ls s)) = False
    \<and> localAudioLevel (snd (cleanup e ls s)) = 0
    \<and> remoteAudioLevel (snd (cleanup e ls s)) = 0
    \<and> isRecording (snd (cleanup e ls s)) = False
    \<and> mediaRecorderRef (snd (cleanup e ls s)) = None
    \<and> audioChunksRef (snd (cleanup e ls s)) = []
    \<and> localAudioContextRef (snd (cleanup e ls s)) = None
    \<and> remoteAudioContextRef (snd (cleanup e ls s)) = None
    \<and> localAnalyserRef (snd (cleanup e ls s)) = None
    \<and> remoteAnalyserRef (snd (cleanup e ls s)) = None
    \<and> updateAudioLevel e' sd (snd (cleanup e ls s)) = snd (cleanup e ls s)"
proof -
  from cleanup_first [OF assms, of e ls] obtain s8 where
    s8: "cleanup e ls s = (None, resetSession s8)" by blast
  show ?thesis
    unfolding s8 by (cases sd) (simp_all add: resetSession_def updateAudioLevel_def)
qed

theorem cleanup_resets_witness:
  "\<not> hasCleanedUpRef exampleCalling
   \<and> localStream exampleCalling = Some exampleTracks
   \<and> peerConnectionRef exampleCalling = Some examplePc
   \<and> mediaRecorderRef exampleCalling \<noteq> None
   \<and> localStream (snd (cleanup exampleEnv (Some exampleTracks) exampleCalling)) = None
   \<and> peerConnectionRef (snd (cleanup exampleEnv (Some exampleTracks) exampleCalling)) = None
   \<and> mediaRecorderRef (snd (cleanup exampleEnv (Some exampleTracks) exampleCalling)) = None
   \<and> callAccepted (snd (cleanup exampleEnv (Some exampleTracks) exampleCalling)) = False"
proof -
  have fresh: "\<not> hasCleanedUpRef exampleCalling"
    by (simp add: exampleCalling_def initial_state_def)
  from cleanup_resets [OF fresh, of exampleEnv "Some exampleTracks" exampleEnv Local]
  show ?thesis
    by (simp add: exampleCalling_def initial_state_def)
qed

subsection \<open>Remote tracks\<close>

lemma monitoring_keeps:
  "remoteMediaStreamRef (setupAudioLevelMonitoring e ms sd s) = remoteMediaStreamRef s"
  "remoteStream (setupAudioLevelMonitoring e ms sd s) = remoteStream s"
  "peerConnectionRef (setupAudioLevelMonitoring e ms sd s) = peerConnectionRef s"
  "pendingRemoteIceCandidatesRef (setupAudioLevelMonitoring e ms sd s) = pendingRemoteIceCandidatesRef s"
  "effects (setupAudioLevelMonitoring e ms sd s) = effects s"
  by (simp_all add: setupAudioLevelMonitoring_def updateAudioLevel_def split: option.splits)

lemma ontrack_aggregated:
  "aggregated (ontrack e t s) =
     (if track_id t \<in> track_id ` set (aggregated s) then aggregated s else aggregated s @ [t])"
proof -
  have ex: "list_ex (\<lambda>u. track_id u = track_id t) ms = (track_id t \<in> track_id ` set ms)" for ms
    by (auto simp: list_ex_iff image_iff) metis
  show ?thesis
    by (simp add: ontrack_def aggregated_def Let_def monitoring_keeps getTracks_def ex
             split: option.splits)
qed

lemma ontrack_refs:
  "remoteMediaStreamRef (ontrack e t s) = Some (aggregated (ontrack e t s))"
  "remoteStream (ontrack e t s) = Some (aggregated (ontrack e t s))"
  "callAccepted (ontrack e t s)"
  "peerConnectionRef (ontrack e t s) = peerConnectionRef s"
  "pendingRemoteIceCandidatesRef (ontrack e t s) = pendingRemoteIceCandidatesRef s"
  by (simp_all add: ontrack_def aggregated_def Let_def monitoring_keeps getTracks_def)

lemma ontrack_distinct:
  "distinct (map track_id (aggregated s)) \<Longrightarrow> distinct (map track_id (aggregated (ontrack e t s)))"
  by (simp add: ontrack_aggregated)

lemma ontrack_ids:
  "track_id ` set (aggregated (ontrack e t s)) = insert (track_id t) (track_id ` set (aggregated s))"
  by (auto simp: ontrack_aggregated)

lemma fold_ontrack_distinct:
  "distinct (map track_id (aggregated s)) \<Longrightarrow>
   distinct (map track_id (aggregated (fold (ontrack e) ts s)))"
  by (induction ts arbitrary: s) (simp_all add: ontrack_distinct)

lemma fold_ontrack_ids:
  "track_id ` set (aggregated (fold (ontrack e) ts s)) =
     track_id ` set (aggregated s) \<union> track_id ` set ts"
  by (induction ts arbitrary: s) (simp_all add: ontrack_ids)

lemma ontrack_twice: "aggregated (ontrack e t (ontrack e t s)) = aggregated (ontrack e t s)"
  by (simp add: ontrack_aggregated)

lemma ontrack_first: "remoteMediaStreamRef s = None \<Longrightarrow> aggregated (ontrack e t s) = [t]"
  by (simp add: ontrack_aggregated) (simp add: aggregated_def getTracks_def)

lemma fold_ontrack_accepted:
  "ts \<noteq> [] \<Longrightarrow> callAccepted (fold (ontrack e) ts s)"
proof (induction ts arbitrary: s rule: rev_induct)
  case Nil
  then show ?case by simp
next
  case (snoc t ts)
  show ?case by (simp add: ontrack_refs)
qed

text \<open>
  C6. Whatever remote tracks arrive, in whatever order and however often, the aggregated
  remote stream holds each track identity at most once: starting from a stream without
  duplicates (in particular from none at all), it has no duplicate after any sequence
  \<open>ts\<close> of arrivals, and holds exactly the identities it had and those that arrived. A
  track whose id is already there is not added again, so the same track arriving twice
  leaves one entry. Every arrival, hence the first one, sets the accepted flag, and
  publishes the aggregated stream as the remote stream.
\<close>

theorem remote_tracks_deduplicated:
  assumes "distinct (map track_id (aggregated s))"
  shows "distinct (map track_id (aggregated (fold (ontrack e) ts s)))
    \<and> track_id ` set (aggregated (fold (ontrack e) ts s)) =
        track_id ` set (aggregated s) \<union> track_id ` set ts
    \<and> aggregated (ontrack e t (ontrack e t s)) = aggregated (ontrack e t s)
    \<and> (remoteMediaStreamRef s = None \<longrightarrow> aggregated (ontrack e t (ontrack e t s)) = [t])
    \<and> callAccepted (ontrack e t s)
    \<and> (ts \<noteq> [] \<longrightarrow> callAccepted (fold (ontrack e) ts s))
    \<and> remoteStream (ontrack e t s) = Some (aggregated (ontrack e t s))
    \<and> remoteMediaStreamRef (ontrack e t s) = Some (aggregated (ontrack e t s))"
proof (intro conjI impI)
  show "distinct (map track_id (aggregated (fold (ontrack e) ts s)))"
    using assms by (rule fold_ontrack_distinct)
  show "track_id ` set (aggregated (fold (ontrack e) ts s)) =
          track_id ` set (aggregated s) \<union> track_id ` set ts"
    by (rule fold_ontrack_ids)
  show "aggregated (ontrack e t (ontrack e t s)) = aggregated (ontrack e t s)"
    by (rule ontrack_twice)
  show "aggregated (ontrack e t (ontrack e t s)) = [t]" if "remoteMediaStreamRef s = None"
    using that by (simp only: ontrack_twice ontrack_first)
  show "callAccepted (ontrack e t s)"
    by (rule ontrack_refs)
  show "callAccepted (fold (ontrack e) ts s)" if "ts \<noteq> []"
    using that by (rule fold_ontrack_accepted)
  show "remoteStream (ontrack e t s) = Some (aggregated (ontrack e t s))"
    by (rule ontrack_refs)
  show "remoteMediaStreamRef (ontrack e t s) = Some (aggregated (ontrack e t s))"
    by (rule ontrack_refs)
qed

theorem remote_tracks_deduplicated_witness:
  "distinct (map track_id (aggregated exampleCalling))
   \<and> aggregated
       (fold (ontrack exampleEnv)
          [\<lparr>track_id = ''r1'', kind = AudioKind, enabled = True\<rparr>,
           \<lparr>track_id = ''r2'', kind = VideoKind, enabled = True\<rparr>,
           \<lparr>track_id = ''r1'', kind = AudioKind, enabled = True\<rparr>] exampleCalling)
     = [\<lparr>track_id = ''r1'', kind = AudioKind, enabled = True\<rparr>,
        \<lparr>track_id = ''r2'', kind = VideoKind, enabled = True\<rparr>]
   \<and> distinct (map track_id
       (aggregated
         (fold (ontrack exampleEnv)
            [\<lparr>track_id = ''r1'', kind = AudioKind, enabled = True\<rparr>,
             \<lparr>track_id = ''r2'', kind = VideoKind, enabled = True\<rparr>,
             \<lparr>track_id = ''r1'', kind = AudioKind, enabled = True\<rparr>] exampleCalling)))
   \<and> callAccepted
       (ontrack exampleEnv \<lparr>track_id = ''r1'', kind = AudioKind, enabled = True\<rparr> exampleCalling)"
proof -
  have start: "distinct (map track_id (aggregated exampleCalling))"
    by (simp add: aggregated_def exampleCalling_def initial_state_def)
  have run: "aggregated
       (fold (ontrack exampleEnv)
          [\<lparr>track_id = ''r1'', kind = AudioKind, enabled = True\<rparr>,
           \<lparr>track_id = ''r2'', kind = VideoKind, enabled = True\<rparr>,
           \<lparr>track_id = ''r1'', kind = AudioKind, enabled = True\<rparr>] exampleCalling)
     = [\<lparr>track_id = ''r1'', kind = AudioKind, enabled = True\<rparr>,
        \<lparr>track_id = ''r2'', kind = VideoKind, enabled = True\<rparr>]"
    by (simp add: ontrack_aggregated) (simp add: aggregated_def exampleCalling_def initial_state_def getTracks_def)
  from remote_tracks_deduplicated [OF start, of exampleEnv
      "[\<lparr>track_id = ''r1'', kind = AudioKind, enabled = True\<rparr>,
        \<lparr>track_id = ''r2'', kind = VideoKind, enabled = True\<rparr>,
        \<lparr>track_id = ''r1'', kind = AudioKind, enabled = True\<rparr>]"
      "\<lparr>track_id = ''r1'', kind = AudioKind, enabled = True\<rparr>"]
  show ?thesis using start run by simp
qed

subsection \<open>Mode toggles\<close>

lemma flipFirst_decomp:
  "kind t = k \<Longrightarrow> \<forall>u \<in> set pre. kind u \<noteq> k \<Longrightarrow>
   flipFirst k (pre @ t # post) = pre @ t\<lparr>enabled := \<not> enabled t\<rparr> # post"
  by (induction pre) simp_all

lemma flipFirst_twice: "flipFirst k (flipFirst k ms) = ms"
  by (induction ms) simp_all

lemma filter_flipFirst:
  "filter (\<lambda>t. kind t = k) (flipFirst k ms) =
     (case filter (\<lambda>t. kind t = k) ms of [] \<Rightarrow> [] | t # ts \<Rightarrow> t\<lparr>enabled := \<not> enabled t\<rparr> # ts)"
  by (induction ms) simp_all

lemma filter_first:
  "kind t = k \<Longrightarrow> \<forall>u \<in> set pre. kind u \<noteq> k \<Longrightarrow>
   filter (\<lambda>t. kind t = k) (pre @ t # post) = t # filter (\<lambda>t. kind t = k) post"
  by (induction pre) simp_all

lemma toggleVideo_noop:
  "localStream s = None \<or> (\<exists>ms. localStream s = Some ms \<and> getVideoTracks ms = []) \<Longrightarrow>
   toggleVideo s = s"
  by (auto simp: toggleVideo_def)

lemma toggleVideo_flips:
  assumes "localStream s = Some (pre @ t # post)" "kind t = VideoKind"
    "\<forall>u \<in> set pre. kind u \<noteq> VideoKind"
  shows "toggleVideo s =
           s\<lparr>localStream := Some (pre @ t\<lparr>enabled := \<not> enabled t\<rparr> # post),
              isVideoEnabled := \<not> enabled t\<rparr>"
  using assms by (simp add: toggleVideo_def getVideoTracks_def filter_first flipFirst_decomp)

lemma toggleVideo_twice_stream: "localStream (toggleVideo (toggleVideo s)) = localStream s"
  by (auto simp: toggleVideo_def getVideoTracks_def filter_flipFirst flipFirst_twice
           split: option.splits list.splits)

lemma toggleVideo_twice:
  assumes "localStream s = Some (pre @ t # post)" "kind t = VideoKind"
    "\<forall>u \<in> set pre. kind u \<noteq> VideoKind"
  shows "toggleVideo (toggleVideo s) = s\<lparr>isVideoEnabled := enabled t\<rparr>"
proof -
  let ?s1 = "s\<lparr>localStream := Some (pre @ t\<lparr>enabled := \<not> enabled t\<rparr> # post),
              isVideoEnabled := \<not> enabled t\<rparr>"
  have "toggleVideo ?s1 =
          ?s1\<lparr>localStream := Some (pre @ (t\<lparr>enabled := \<not> enabled t\<rparr>)\<lparr>enabled := \<not> enabled (t\<lparr>enabled := \<not> enabled t\<rparr>)\<rparr> # post),
              isVideoEnabled := \<not> enabled (t\<lparr>enabled := \<not> enabled t\<rparr>)\<rparr>"
    using assms by (intro toggleVideo_flips) simp_all
  then show ?thesis
    using assms(1) by (simp add: toggleVideo_flips [OF assms])
qed

lemma toggleVideo_frame:
  "peerConnectionRef (toggleVideo s) = peerConnectionRef s"
  "effects (toggleVideo s) = effects s"
  by (simp_all add: toggleVideo_def split: option.splits list.splits)

lemma toggleAudio_noop:
  "localStream s = None \<or> (\<exists>ms. localStream s = Some ms \<and> getAudioTracks ms = []) \<Longrightarrow>
   toggleAudio s = s"
  by (auto simp: toggleAudio_def)

lemma toggleAudio_flips:
  assumes "localStream s = Some (pre @ t # post)" "kind t = AudioKind"
    "\<forall>u \<in> set pre. kind u \<noteq> AudioKind"
  shows "toggleAudio s =
           s\<lparr>localStream := Some (pre @ t\<lparr>enabled := \<not> enabled t\<rparr> # post),
              isAudioEnabled := \<not> enabled t\<rparr>"
  using assms by (simp add: toggleAudio_def getAudioTracks_def filter_first flipFirst_decomp)

lemma toggleAudio_twice_stream: "localStream (toggleAudio (toggleAudio s)) = localStream s"
  by (auto simp: toggleAudio_def getAudioTracks_def filter_flipFirst flipFirst_twice
           split: option.splits list.splits)

lemma toggleAudio_twice:
  assumes "localStream s = Some (pre @ t # post)" "kind t = AudioKind"
    "\<forall>u \<in> set pre. kind u \<noteq> AudioKind"
  shows "toggleAudio (toggleAudio s) = s\<lparr>isAudioEnabled := enabled t\<rparr>"
proof -
  let ?s1 = "s\<lparr>localStream := Some (pre @ t\<lparr>enabled := \<not> enabled t\<rparr> # post),
              isAudioEnabled := \<not> enabled t\<rparr>"
  have "toggleAudio ?s1 =
          ?s1\<lparr>localStream := Some (pre @ (t\<lparr>enabled := \<not> enabled t\<rparr>)\<lparr>enabled := \<not> enabled (t\<lparr>enabled := \<not> enabled t\<rparr>)\<rparr> # post),
              isAudioEnabled := \<not> enabled (t\<lparr>enabled := \<not> enabled t\<rparr>)\<rparr>"
    using assms by (intro toggleAudio_flips) simp_all
  then show ?thesis
    using assms(1) by (simp add: toggleAudio_flips [OF assms])
qed

lemma toggleAudio_frame:
  "peerConnectionRef (toggleAudio s) = peerConnectionRef s"
  "effects (toggleAudio s) = effects s"
  by (simp_all add: toggleAudio_def split: option.splits list.splits)

text \<open>
  C7. \<^verbatim>\<open>toggleVideo\<close> and \<^verbatim>\<open>toggleAudio\<close>, in every session state. Without a local stream,
  or without a track of the kind in it, the toggle changes nothing and raises nothing.
  With the first track of the kind being \<open>t\<close> (after the tracks \<open>pre\<close>, none of that
  kind, and before \<open>post\<close>), it inverts the enabled flag of \<open>t\<close> and of no other track,
  and publishes the new flag; toggling twice gives \<open>t\<close> its flag back, leaves the
  stream as it was, and publishes the flag \<open>t\<close> has. The toggle touches neither the
  connectivity handle nor the socket: nothing is renegotiated.
\<close>

theorem toggles_flip_first_track:
  "(localStream s = None \<or> (\<exists>ms. localStream s = Some ms \<and> getVideoTracks ms = [])
      \<longrightarrow> toggleVideo s = s)
   \<and> (localStream s = Some (pre @ t # post) \<and> kind t = VideoKind
        \<and> (\<forall>u \<in> set pre. kind u \<noteq> VideoKind)
      \<longrightarrow> toggleVideo s =
            s\<lparr>localStream := Some (pre @ t\<lparr>enabled := \<not> enabled t\<rparr> # post),
               isVideoEnabled := \<not> enabled t\<rparr>
          \<and> toggleVideo (toggleVideo s) = s\<lparr>isVideoEnabled := enabled t\<rparr>)
   \<and> localStream (toggleVideo (toggleVideo s)) = localStream s
   \<and> peerConnectionRef (toggleVideo s) = peerConnectionRef s
   \<and> effects (toggleVideo s) = effects s
   \<and> (localStream s = None \<or> (\<exists>ms. localStream s = Some ms \<and> getAudioTracks ms = [])
      \<longrightarrow> toggleAudio s = s)
   \<and> (localStream s = Some (pre @ t # post) \<and> kind t = AudioKind
        \<and> (\<forall>u \<in> set pre. kind u \<noteq> AudioKind)
      \<longrightarrow> toggleAudio s =
            s\<lparr>localStream := Some (pre @ t\<lparr>enabled := \<not> enabled t\<rparr> # post),
               isAudioEnabled := \<not> enabled t\<rparr>
          \<and> toggleAudio (toggleAudio s) = s\<lparr>isAudioEnabled := enabled t\<rparr>)
   \<and> localStream (toggleAudio (toggleAudio s)) = localStream s
   \<and> peerConnectionRef (toggleAudio s) = peerConnectionRef s
   \<and> effects (toggleAudio s) = effects s"
proof (intro conjI impI)
  show "toggleVideo s = s"
    if "localStream s = None \<or> (\<exists>ms. localStream s = Some ms \<and> getVideoTracks ms = [])"
    using that by (rule toggleVideo_noop)
  show "toggleAudio s = s"
    if "localStream s = None \<or> (\<exists>ms. localStream s = Some ms \<and> getAudioTracks ms = [])"
    using that by (rule toggleAudio_noop)
  show "toggleVideo s =
          s\<lparr>localStream := Some (pre @ t\<lparr>enabled := \<not> enabled t\<rparr> # post),
             isVideoEnabled := \<not> enabled t\<rparr>"
    if "localStream s = Some (pre @ t # post) \<and> kind t = VideoKind
        \<and> (\<forall>u \<in> set pre. kind u \<noteq> VideoKind)"
    using that by (blast intro: toggleVideo_flips)
  show "toggleVideo (toggleVideo s) = s\<lparr>isVideoEnabled := enabled t\<rparr>"
    if "localStream s = Some (pre @ t # post) \<and> kind t = VideoKind
        \<and> (\<forall>u \<in> set pre. kind u \<noteq> VideoKind)"
    using that by (blast intro: toggleVideo_twice)
  show "toggleAudio s =
          s\<lparr>localStream := Some (pre @ t\<lparr>enabled := \<not> enabled t\<rparr> # post),
             isAudioEnabled := \<not> enabled t\<rparr>"
    if "localStream s = Some (pre @ t # post) \<and> kind t = AudioKind
        \<and> (\<forall>u \<in> set pre. kind u \<noteq> AudioKind)"
    using that by (blast intro: toggleAudio_flips)
  show "toggleAudio (toggleAudio s) = s\<lparr>isAudioEnabled := enabled t\<rparr>"
    if "localStream s = Some (pre @ t # post) \<and> kind t = AudioKind
        \<and> (\<forall>u \<in> set pre. kind u \<noteq> AudioKind)"
    using that by (blast intro: toggleAudio_twice)
qed (simp_all add: toggleVideo_twice_stream toggleAudio_twice_stream toggleVideo_frame
       toggleAudio_frame)

theorem toggles_flip_first_track_witness:
  "toggleVideo exampleCalling =
     exampleCalling
       \<lparr>localStream :=
          Some [\<lparr>track_id = ''a1'', kind = AudioKind, enabled = True\<rparr>,
                \<lparr>track_id = ''v1'', kind = VideoKind, enabled = False\<rparr>],
        isVideoEnabled := False\<rparr>
   \<and> toggleVideo (toggleVideo exampleCalling) = exampleCalling
   \<and> toggleVideo initial_state = initial_state
   \<and> toggleAudio initial_state = initial_state"
proof -
  let ?a = "\<lparr>track_id = ''a1'', kind = AudioKind, enabled = True\<rparr>"
  let ?v = "\<lparr>track_id = ''v1'', kind = VideoKind, enabled = True\<rparr>"
  have first: "localStream exampleCalling = Some ([?a] @ ?v # []) \<and> kind ?v = VideoKind
      \<and> (\<forall>u \<in> set [?a]. kind u \<noteq> VideoKind)"
    by (simp add: exampleCalling_def exampleTracks_def)
  have none: "localStream initial_state = None"
    by (simp add: initial_state_def)
  have sync: "exampleCalling\<lparr>isVideoEnabled := True\<rparr> = exampleCalling"
    by (simp add: exampleCalling_def initial_state_def)
  note at_call = toggles_flip_first_track [of exampleCalling "[?a]" ?v "[]"]
  note at_start = toggles_flip_first_track [of initial_state "[]" undefined "[]"]
  note flipped = at_call [THEN conjunct2, THEN conjunct1, THEN mp, OF first]
  have once: "toggleVideo exampleCalling =
     exampleCalling
       \<lparr>localStream :=
          Some [\<lparr>track_id = ''a1'', kind = AudioKind, enabled = True\<rparr>,
                \<lparr>track_id = ''v1'', kind = VideoKind, enabled = False\<rparr>],
        isVideoEnabled := False\<rparr>"
    using flipped [THEN conjunct1] by simp
  have twice: "toggleVideo (toggleVideo exampleCalling) = exampleCalling"
    using flipped [THEN conjunct2] sync by simp
  have video: "toggleVideo initial_state = initial_state"
    using at_start [THEN conjunct1] none by simp
  have audio: "toggleAudio initial_state = initial_state"
    using at_start [THEN conjunct2, THEN conjunct2, THEN conjunct2, THEN conjunct2,
                    THEN conjunct2, THEN conjunct1] none by simp
  from once twice video audio show ?thesis by (intro conjI)
qed

subsection \<open>Initialization\<close>

text \<open>The example call, run through the model from a fresh mount.\<close>

lemma mount_example: "mount exampleEnv initial_state = exampleCalling"
  by (simp add: mount_def initializeCall_def tryInitializeCall_def connectWith_def exampleEnv_def
      initial_state_def
      exampleCalling_def examplePc_def exampleTracks_def setupAudioLevelMonitoring_def
      updateAudioLevel_def setupAudioRecording_def getAudioTracks_def getTracks_def
      resolveRtcConfig_def requestTurnConfig_def envFallback_def str_truthy_def forceRelay_def
      newRTCPeerConnection_def addLocalTracks_def andThen_def offerOutgoing_def
      setLocalDescription_def strict_eq_def defaultRtcConfig_def Let_def)


lemma resolveRtcConfig_state:
  "teardownFrame s (snd (resolveRtcConfig e s))"
  by (auto simp: resolveRtcConfig_def requestTurnConfig_def teardownFrame_def
      split: turn_reply.splits)









text \<open>With a static relay server configured, the fallback carries it twice.\<close>

lemma static_turn_example:
  "fst (resolveRtcConfig staticTurnEnv s) =
     JObj [(''iceServers'',
            JArr [JObj [(''urls'', JStr ''stun:stun.l.google.com:19302'')],
                  JObj [(''urls'', JStr ''stun:stun1.l.google.com:19302'')],
                  JObj [(''urls'', JStr ''stun:stun2.l.google.com:19302'')],
                  JObj [(''urls'', JArr [JStr ''turn:turn.example.org:3478?transport=udp'']),
                        (''username'', JStr ''temp-user''),
                        (''credential'', JStr ''s3cret''),
                        (''credentialType'', JStr ''password'')],
                  JObj [(''urls'', JArr [JStr ''turn:turn.example.org:3478?transport=tcp'']),
                        (''username'', JStr ''temp-user''),
                        (''credential'', JStr ''s3cret''),
                        (''credentialType'', JStr ''password'')]])]"
  by (simp add: resolveRtcConfig_def requestTurnConfig_def staticTurnEnv_def exampleEnv_def
      envFallback_def str_truthy_def defaultRtcConfig_def defaultIceServers_def turnServer_def)

subsection \<open>No candidate before the remote description\<close>

lemma noEarly_iff:
  "noEarlyCandidate s = (case peerConnectionRef s of None \<Rightarrow> True | Some pc \<Rightarrow> pcOk pc)"
  by (cases "peerConnectionRef s") (simp_all add: noEarlyCandidate_def pcOk_def)

lemma noEarly_same_handle:
  "peerConnectionRef s' = peerConnectionRef s \<Longrightarrow> noEarlyCandidate s' = noEarlyCandidate s"
  by (simp add: noEarlyCandidate_def)

lemma noEarly_no_handle: "peerConnectionRef s = None \<Longrightarrow> noEarlyCandidate s"
  by (simp add: noEarlyCandidate_def)

lemma noEarly_handleIceCandidate:
  assumes "noEarlyCandidate s"
  shows "noEarlyCandidate (handleIceCandidate e m s)"
proof (cases "peerConnectionRef s")
  case None
  then show ?thesis using assms by (simp add: handleIceCandidate_ignores)
next
  case (Some pc)
  show ?thesis
  proof (cases "truthy (get_prop m ''candidate'')")
    case False
    then show ?thesis using assms by (simp add: handleIceCandidate_ignores)
  next
    case True
    show ?thesis
    proof (cases "remoteDescription pc = None")
      case True
      with Some \<open>truthy (get_prop m ''candidate'')\<close> assms show ?thesis
        by (simp add: handleIceCandidate_buffers noEarlyCandidate_def)
    next
      case False
      with Some \<open>truthy (get_prop m ''candidate'')\<close> show ?thesis
        by (simp add: handleIceCandidate_applies noEarlyCandidate_def snd_addIceCandidate)
    qed
  qed
qed

lemma noEarly_handleCallAnswer:
  assumes "noEarlyCandidate s"
  shows "noEarlyCandidate (handleCallAnswer e data s)"
proof (cases "peerConnectionRef s")
  case None
  then show ?thesis using assms by (simp add: handleCallAnswer_ignores)
next
  case (Some pc)
  show ?thesis
  proof (cases "truthy (get_prop data ''answer'')")
    case False
    then show ?thesis using assms by (simp add: handleCallAnswer_ignores)
  next
    case True
    show ?thesis
    proof (cases "setRemoteDescriptionFails e pc (get_prop data ''answer'')")
      case None
      show ?thesis
        by (simp add: handleCallAnswer_accepted [OF Some True None] noEarlyCandidate_def
            applyBuffered_remote)
    next
      case (Some err)
      show ?thesis
        using assms by (simp add: handleCallAnswer_rejected [OF \<open>peerConnectionRef s = Some pc\<close> Some])
    qed
  qed
qed

lemma handleCallEnded_handle:
  "peerConnectionRef (snd (handleCallEnded e ls s)) = None
   \<or> peerConnectionRef (snd (handleCallEnded e ls s)) = peerConnectionRef s"
proof (cases "hasCleanedUpRef s")
  case True
  then show ?thesis by (simp add: handleCallEnded_def cleanup_done andThen_def)
next
  case False
  from cleanup_first [OF False, of e ls] obtain s8 where
    "cleanup e ls s = (None, resetSession s8)" by blast
  then show ?thesis by (simp add: handleCallEnded_def andThen_def resetSession_def)
qed

lemma noEarly_handleCallEnded:
  assumes "noEarlyCandidate s"
  shows "noEarlyCandidate (snd (handleCallEnded e ls s))"
proof -
  from handleCallEnded_handle [of e ls s] show ?thesis
  proof
    assume "peerConnectionRef (snd (handleCallEnded e ls s)) = None"
    then show ?thesis by (rule noEarly_no_handle)
  next
    assume "peerConnectionRef (snd (handleCallEnded e ls s)) = peerConnectionRef s"
    then have "noEarlyCandidate (snd (handleCallEnded e ls s)) = noEarlyCandidate s"
      by (rule noEarly_same_handle)
    with assms show ?thesis by simp
  qed
qed

lemma noEarly_deliver:
  assumes "noEarlyCandidate s"
  shows "noEarlyCandidate (deliver e ev s)"
proof (cases ev)
  case (CallAnswer data)
  then show ?thesis using assms by (simp add: noEarly_handleCallAnswer)
next
  case (IceCandidate data)
  then show ?thesis using assms by (simp add: noEarly_handleIceCandidate)
next
  case CallEnded
  then show ?thesis using assms by (simp add: noEarly_handleCallEnded)
next
  case (Track track)
  then show ?thesis using assms by (simp add: noEarly_same_handle [OF ontrack_refs(4)])
qed

lemma noEarly_events:
  "noEarlyCandidate s \<Longrightarrow> noEarlyCandidate (fold (deliver e) evs s)"
  by (induction evs arbitrary: s) (simp_all add: noEarly_deliver)

lemma offerOutgoing_ok:
  assumes "pairOk ps"
  shows "pairOk (snd (offerOutgoing e ps))"
proof -
  obtain pc s where ps: "ps = (pc, s)" by (cases ps)
  show ?thesis
    using assms unfolding ps
    by (auto simp: offerOutgoing_def setLocalDescription_def pairOk_def pcOk_def
        split: sum.splits option.splits)
qed

lemma answerIncoming_ok:
  assumes "pairOk ps"
  shows "pairOk (snd (answerIncoming e ps))"
proof -
  obtain pc s where ps: "ps = (pc, s)" by (cases ps)
  define pc1 where "pc1 = pc\<lparr>remoteDescription := Some (cd_offer (callData e))\<rparr>"
  define pc2 where "pc2 = snd (applyBuffered e (pendingRemoteIceCandidatesRef s) pc1)"
  have remote: "remoteDescription pc2 \<noteq> None"
    by (simp add: pc2_def pc1_def applyBuffered_remote)
  show ?thesis
  proof (cases "setRemoteDescriptionFails e pc (cd_offer (callData e))")
    case (Some err)
    then show ?thesis
      using assms unfolding ps
      by (simp add: answerIncoming_def setRemoteDescription_def pairOk_def)
  next
    case None
    then show ?thesis
      using remote unfolding ps
      by (auto simp: answerIncoming_def setRemoteDescription_def setLocalDescription_def
          flushPending_eq Let_def pairOk_def pcOk_def pc1_def pc2_def
          split: sum.splits option.splits)
  qed
qed

lemma andThen_pairOk:
  assumes "pairOk (snd r)" and "\<And>ps. pairOk ps \<Longrightarrow> pairOk (snd (f ps))"
  shows "pairOk (snd (andThen r f))"
proof (cases "fst r")
  case None
  then show ?thesis using assms by (simp add: andThen_ok)
next
  case (Some err)
  then show ?thesis using assms(1) by (simp add: andThen_error)
qed

lemma connectWith_noEarly:
  assumes "noEarlyCandidate s"
  shows "noEarlyCandidate (snd (connectWith e stream config s))"
proof (cases "newPeerConnection e config")
  case (Some err)
  then show ?thesis using assms by (simp add: connectWith_def)
next
  case None
  define pc where "pc = addLocalTracks stream (newRTCPeerConnection config)"
  define s5 where "s5 = s\<lparr>peerConnectionRef := Some pc\<rparr>"
  define r where "r =
         andThen
           (if strict_eq (cd_type (callData e)) (JStr ''outgoing'')
            then offerOutgoing e (pc, s5) else (None, pc, s5))
           (\<lambda>ps. if strict_eq (cd_type (callData e)) (JStr ''incoming'')
                     \<and> truthy (cd_offer (callData e))
                  then answerIncoming e ps else (None, ps))"
  have start: "pairOk (pc, s5)"
    by (simp add: pairOk_def pcOk_def pc_def s5_def addLocalTracks_def newRTCPeerConnection_def)
  have "pairOk (snd r)"
    unfolding r_def
  proof (rule andThen_pairOk)
    show "pairOk (snd (if strict_eq (cd_type (callData e)) (JStr ''outgoing'')
                       then offerOutgoing e (pc, s5) else (None, pc, s5)))"
      using start by (simp add: offerOutgoing_ok)
  next
    fix ps assume "pairOk ps"
    then show "pairOk (snd (if strict_eq (cd_type (callData e)) (JStr ''incoming'')
                              \<and> truthy (cd_offer (callData e))
                            then answerIncoming e ps else (None, ps)))"
      by (simp add: answerIncoming_ok)
  qed
  moreover have "connectWith e stream config s = (fst r, snd (snd r))"
    using None by (simp add: connectWith_def Let_def pc_def s5_def r_def split: prod.splits)
  ultimately show ?thesis
    by (simp add: pairOk_def noEarly_iff)
qed

lemma recording_handle:
  "peerConnectionRef (setupAudioRecording e ms s) = peerConnectionRef s"
  by (simp add: setupAudioRecording_def Let_def split: option.splits)

lemma tryInitializeCall_noEarly:
  assumes "noEarlyCandidate s"
  shows "noEarlyCandidate (snd (tryInitializeCall e s))"
proof (cases "mediaDevicesAvailable e")
  case False
  then show ?thesis using assms by (simp add: tryInitializeCall_def)
next
  case True
  show ?thesis
  proof (cases "getUserMedia e")
    case (Inl err)
    then show ?thesis using assms True by (simp add: tryInitializeCall_def)
  next
    case (Inr stream)
    define s4 where "s4 = snd (resolveRtcConfig e
                (setupAudioRecording e stream
                   (setupAudioLevelMonitoring e stream Local (s\<lparr>localStream := Some stream\<rparr>))))"
    have "peerConnectionRef s4 = peerConnectionRef s"
      by (simp add: s4_def frame_handle [OF resolveRtcConfig_state] recording_handle
          monitoring_keeps)
    then have "noEarlyCandidate s4"
      using assms by (simp add: noEarlyCandidate_def)
    then have "noEarlyCandidate (snd (connectWith e stream (forceRelay e (fst (resolveRtcConfig e
                (setupAudioRecording e stream
                   (setupAudioLevelMonitoring e stream Local (s\<lparr>localStream := Some stream\<rparr>)))))) s4))"
      by (rule connectWith_noEarly)
    then show ?thesis
      using True Inr by (simp add: tryInitializeCall_def Let_def s4_def)
  qed
qed

lemma initializeCall_noEarly:
  assumes "noEarlyCandidate s"
  shows "noEarlyCandidate (initializeCall e s)"
proof -
  have "peerConnectionRef (initializeCall e s) = peerConnectionRef (snd (tryInitializeCall e s))"
    by (simp add: initializeCall_def split: prod.splits option.splits)
  then have "noEarlyCandidate (initializeCall e s) = noEarlyCandidate (snd (tryInitializeCall e s))"
    by (rule noEarly_same_handle)
  with tryInitializeCall_noEarly [OF assms] show ?thesis by simp
qed

lemma mount_noEarly:
  assumes "noEarlyCandidate s"
  shows "noEarlyCandidate (mount e s)"
proof (cases "initializedRef s")
  case True
  then show ?thesis using assms by (simp add: mount_def)
next
  case False
  have "noEarlyCandidate (s\<lparr>initializedRef := True\<rparr>)"
    using assms by (simp add: noEarlyCandidate_def)
  then have "noEarlyCandidate (initializeCall e (s\<lparr>initializedRef := True\<rparr>))"
    by (rule initializeCall_noEarly)
  with False show ?thesis by (simp add: mount_def)
qed

text \<open>
  C1, as the code has it. While a connectivity handle exists, no candidate is applied to
  it before a remote description has been set on it. From a state whose handle \<open>pc\<close> has
  no remote description yet: every message of \<open>msgs\<close> that carries a candidate is appended
  to the pending buffer, in arrival order, and the handle is not touched; when an answer
  then arrives and the engine accepts it as remote description, every buffered candidate
  is passed to \<^verbatim>\<open>addIceCandidate\<close> exactly once, in the order received, and the buffer is
  empty. In every state reached from there by any inbound events, and in every state
  reachable from a fresh mount at all, a handle without remote description has been
  given no candidate. A candidate message that arrives while there is no handle (before
  \<^verbatim>\<open>initializeCall\<close> has built it, or after cleanup), or that carries no candidate, is
  discarded: it is neither buffered nor applied.
\<close>

theorem candidates_buffered_then_flushed:
  assumes "peerConnectionRef s = Some pc"
    and "remoteDescription pc = None" and "iceLog pc = []"
    and "list_all (\<lambda>m. truthy (get_prop m ''candidate'')) msgs"
    and "truthy (get_prop data ''answer'')"
    and "setRemoteDescriptionFails e pc (get_prop data ''answer'') = None"
  shows "fold (handleIceCandidate e) msgs s =
           s\<lparr>pendingRemoteIceCandidatesRef :=
                pendingRemoteIceCandidatesRef s @ map (\<lambda>m. get_prop m ''candidate'') msgs\<rparr>
    \<and> (\<exists>pc'. handleCallAnswer e data (fold (handleIceCandidate e) msgs s) =
                 s\<lparr>peerConnectionRef := Some pc', pendingRemoteIceCandidatesRef := []\<rparr>
              \<and> remoteDescription pc' = Some (get_prop data ''answer'')
              \<and> map fst (iceLog pc') =
                   pendingRemoteIceCandidatesRef s @ map (\<lambda>m. get_prop m ''candidate'') msgs)
    \<and> (\<forall>evs. noEarlyCandidate (fold (deliver e) evs s))
    \<and> (\<forall>e' before after.
          noEarlyCandidate
            (fold (deliver e') after (mount e' (fold (deliver e') before initial_state))))
    \<and> (\<forall>s0 m. peerConnectionRef s0 = None \<or> \<not> truthy (get_prop m ''candidate'')
          \<longrightarrow> handleIceCandidate e m s0 = s0)"
proof (intro conjI allI impI)
  let ?cands = "map (\<lambda>m. get_prop m ''candidate'') msgs"
  let ?s1 = "s\<lparr>pendingRemoteIceCandidatesRef := pendingRemoteIceCandidatesRef s @ ?cands\<rparr>"
  show buffered: "fold (handleIceCandidate e) msgs s = ?s1"
    using assms(1,2,4) by (rule fold_handleIceCandidate_buffers)
  define pc' where
    "pc' = snd (applyBuffered e (pendingRemoteIceCandidatesRef s @ ?cands)
                  (pc\<lparr>remoteDescription := Some (get_prop data ''answer'')\<rparr>))"
  have "handleCallAnswer e data ?s1 =
          ?s1\<lparr>peerConnectionRef := Some pc', pendingRemoteIceCandidatesRef := []\<rparr>"
    unfolding pc'_def
    using handleCallAnswer_accepted [of ?s1 pc data e] assms(1,5,6) by simp
  then have "handleCallAnswer e data (fold (handleIceCandidate e) msgs s) =
          s\<lparr>peerConnectionRef := Some pc', pendingRemoteIceCandidatesRef := []\<rparr>"
    by (simp add: buffered)
  moreover have "remoteDescription pc' = Some (get_prop data ''answer'')"
    by (simp add: pc'_def applyBuffered_remote)
  moreover have "map fst (iceLog pc') = pendingRemoteIceCandidatesRef s @ ?cands"
    using assms(3) by (simp add: pc'_def applyBuffered_log)
  ultimately show "\<exists>pc'. handleCallAnswer e data (fold (handleIceCandidate e) msgs s) =
                 s\<lparr>peerConnectionRef := Some pc', pendingRemoteIceCandidatesRef := []\<rparr>
              \<and> remoteDescription pc' = Some (get_prop data ''answer'')
              \<and> map fst (iceLog pc') = pendingRemoteIceCandidatesRef s @ ?cands"
    by blast
next
  fix evs
  have "noEarlyCandidate s"
    using assms(1,3) by (simp add: noEarlyCandidate_def)
  then show "noEarlyCandidate (fold (deliver e) evs s)"
    by (rule noEarly_events)
next
  fix e' before after
  have "noEarlyCandidate initial_state"
    by (simp add: noEarlyCandidate_def initial_state_def)
  then have "noEarlyCandidate (fold (deliver e') before initial_state)"
    by (rule noEarly_events)
  then have "noEarlyCandidate (mount e' (fold (deliver e') before initial_state))"
    by (rule mount_noEarly)
  then show "noEarlyCandidate
            (fold (deliver e') after (mount e' (fold (deliver e') before initial_state)))"
    by (rule noEarly_events)
next
  fix s0 :: vc_state and m :: jsval
  assume "peerConnectionRef s0 = None \<or> \<not> truthy (get_prop m ''candidate'')"
  then show "handleIceCandidate e m s0 = s0"
    by (rule handleIceCandidate_ignores)
qed


theorem candidates_buffered_then_flushed_witness:
  "pendingRemoteIceCandidatesRef
     (fold (handleIceCandidate exampleEnv) [candidateMsg ''c1'', candidateMsg ''c2''] exampleCalling)
     = [JStr ''c1'', JStr ''c2'']
   \<and> (\<exists>pc'. handleCallAnswer exampleEnv (answerMsg ''sdp'')
               (fold (handleIceCandidate exampleEnv) [candidateMsg ''c1'', candidateMsg ''c2'']
                  exampleCalling)
             = exampleCalling\<lparr>peerConnectionRef := Some pc', pendingRemoteIceCandidatesRef := []\<rparr>
           \<and> remoteDescription pc' = Some (JStr ''sdp'')
           \<and> map fst (iceLog pc') = [JStr ''c1'', JStr ''c2''])"
proof -
  have handle: "peerConnectionRef exampleCalling = Some examplePc"
    by (simp add: exampleCalling_def)
  have early: "remoteDescription examplePc = None" "iceLog examplePc = []"
    by (simp_all add: examplePc_def)
  have cands: "list_all (\<lambda>m. truthy (get_prop m ''candidate''))
                 [candidateMsg ''c1'', candidateMsg ''c2'']"
    by (simp add: candidateMsg_def)
  have answer: "truthy (get_prop (answerMsg ''sdp'') ''answer'')"
    "setRemoteDescriptionFails exampleEnv examplePc (get_prop (answerMsg ''sdp'') ''answer'') = None"
    by (simp_all add: answerMsg_def exampleEnv_def)
  have empty: "pendingRemoteIceCandidatesRef exampleCalling = []"
    by (simp add: exampleCalling_def initial_state_def)
  note run = candidates_buffered_then_flushed [OF handle early cands answer]
  have first: "pendingRemoteIceCandidatesRef
     (fold (handleIceCandidate exampleEnv) [candidateMsg ''c1'', candidateMsg ''c2''] exampleCalling)
     = [JStr ''c1'', JStr ''c2'']"
    by (subst run [THEN conjunct1]) (simp add: empty candidateMsg_def)
  have second: "\<exists>pc'. handleCallAnswer exampleEnv (answerMsg ''sdp'')
               (fold (handleIceCandidate exampleEnv) [candidateMsg ''c1'', candidateMsg ''c2'']
                  exampleCalling)
             = exampleCalling\<lparr>peerConnectionRef := Some pc', pendingRemoteIceCandidatesRef := []\<rparr>
           \<and> remoteDescription pc' = Some (JStr ''sdp'')
           \<and> map fst (iceLog pc') = [JStr ''c1'', JStr ''c2'']"
    using run [THEN conjunct2, THEN conjunct1] by (simp add: empty candidateMsg_def answerMsg_def)
  from first second show ?thesis by (rule conjI)
qed

text \<open>
  The claim as written, that every candidate arriving before the remote description is
  set is buffered, fails before the handle exists: on a freshly mounted component the
  candidate \<open>c1\<close> is dropped by the guard of line 338, the buffer stays empty, and after
  initialization and the answer the handle has still not been given it.
\<close>

theorem early_candidate_dropped:
  "truthy (get_prop (candidateMsg ''c1'') ''candidate'')
   \<and> peerConnectionRef initial_state = None
   \<and> handleIceCandidate exampleEnv (candidateMsg ''c1'') initial_state = initial_state
   \<and> pendingRemoteIceCandidatesRef
       (handleIceCandidate exampleEnv (candidateMsg ''c1'') initial_state) = []
   \<and> fold (deliver exampleEnv) [CallAnswer (answerMsg ''sdp'')]
       (mount exampleEnv (deliver exampleEnv (IceCandidate (candidateMsg ''c1'')) initial_state))
     = exampleCalling
         \<lparr>peerConnectionRef := Some (examplePc\<lparr>remoteDescription := Some (JStr ''sdp'')\<rparr>)\<rparr>
   \<and> iceLog (examplePc\<lparr>remoteDescription := Some (JStr ''sdp'')\<rparr>) = []"
proof -
  have drop: "handleIceCandidate exampleEnv (candidateMsg ''c1'') initial_state = initial_state"
    by (simp add: handleIceCandidate_def initial_state_def)
  have answer: "handleCallAnswer exampleEnv (answerMsg ''sdp'') exampleCalling =
      exampleCalling
         \<lparr>peerConnectionRef := Some (examplePc\<lparr>remoteDescription := Some (JStr ''sdp'')\<rparr>)\<rparr>"
    by (simp add: handleCallAnswer_def exampleCalling_def initial_state_def answerMsg_def
        setRemoteDescription_def exampleEnv_def flushPending_def)
  show ?thesis
    by (simp add: drop mount_example answer)
       (simp add: candidateMsg_def initial_state_def examplePc_def)
qed

subsection \<open>Answers\<close>














lemma mount_standard: "mount standardEnv initial_state = exampleCalling"
  by (simp add: mount_def initializeCall_def tryInitializeCall_def connectWith_def exampleEnv_def
      standardEnv_def initial_state_def
      exampleCalling_def examplePc_def exampleTracks_def setupAudioLevelMonitoring_def
      updateAudioLevel_def setupAudioRecording_def getAudioTracks_def getTracks_def
      resolveRtcConfig_def requestTurnConfig_def envFallback_def str_truthy_def forceRelay_def
      newRTCPeerConnection_def addLocalTracks_def andThen_def offerOutgoing_def
      setLocalDescription_def strict_eq_def defaultRtcConfig_def Let_def)



subsection \<open>Audio chunks\<close>

lemma audioChunkMessage_fields:
  "js_keys (audioChunkMessage e fmt now chunk) = [''conversationId'', ''audioData'', ''userId'', ''format'']"
  "get_prop (audioChunkMessage e fmt now chunk) ''conversationId'' =
     (if truthy (conversationId (callData e)) then conversationId (callData e)
      else JStr (''call_'' @ user_id (user e) @ ''_'' @ decimal now))"
  "get_prop (audioChunkMessage e fmt now chunk) ''audioData'' = base64Data (dataURL chunk)"
  "get_prop (audioChunkMessage e fmt now chunk) ''userId'' = JStr (user_id (user e))"
  "get_prop (audioChunkMessage e fmt now chunk) ''format'' = JStr fmt"
  by (simp_all add: audioChunkMessage_def)

text \<open>
  C4, as the code has it. Every non-empty chunk that the recorder delivers is kept and
  emitted to the analysis sink as an \<^verbatim>\<open>audio-chunk\<close> message with exactly four fields:
  the conversation id (that of the call, or \<^verbatim>\<open>call_<user id>_<timestamp>\<close> when the call
  has none), the encoded audio payload, the user id and the format. There is no
  sequence index among them. An empty chunk is not emitted.
\<close>

theorem audio_chunk_fields:
  "(0 < blob_size chunk \<longrightarrow>
      effects (ondataavailable e fmt now chunk s) =
        effects s @ [Emit ''audio-chunk'' (audioChunkMessage e fmt now chunk)]
      \<and> audioChunksRef (ondataavailable e fmt now chunk s) = audioChunksRef s @ [chunk])
   \<and> (blob_size chunk = 0 \<longrightarrow> ondataavailable e fmt now chunk s = s)
   \<and> js_keys (audioChunkMessage e fmt now chunk) =
        [''conversationId'', ''audioData'', ''userId'', ''format'']
   \<and> get_prop (audioChunkMessage e fmt now chunk) ''conversationId'' =
        (if truthy (conversationId (callData e)) then conversationId (callData e)
         else JStr (''call_'' @ user_id (user e) @ ''_'' @ decimal now))
   \<and> get_prop (audioChunkMessage e fmt now chunk) ''audioData'' = base64Data (dataURL chunk)
   \<and> get_prop (audioChunkMessage e fmt now chunk) ''userId'' = JStr (user_id (user e))
   \<and> get_prop (audioChunkMessage e fmt now chunk) ''format'' = JStr fmt"
  by (simp add: audioChunkMessage_fields ondataavailable_def)


theorem audio_chunk_fields_witness:
  "0 < blob_size exampleChunk
   \<and> effects (ondataavailable exampleEnv ''webm'' 1000 exampleChunk exampleCalling) =
       effects exampleCalling @
         [Emit ''audio-chunk''
            (JObj [(''conversationId'', JStr ''conv1''), (''audioData'', JStr ''AAAA''),
                   (''userId'', JStr ''u1''), (''format'', JStr ''webm'')])]
   \<and> ondataavailable exampleEnv ''webm'' 1000 \<lparr>blob_size = 0, dataURL = ''data:,''\<rparr> exampleCalling
       = exampleCalling"
proof -
  have size: "0 < blob_size exampleChunk" by (simp add: exampleChunk_def)
  have msg: "audioChunkMessage exampleEnv ''webm'' 1000 exampleChunk =
      JObj [(''conversationId'', JStr ''conv1''), (''audioData'', JStr ''AAAA''),
            (''userId'', JStr ''u1''), (''format'', JStr ''webm'')]"
    by (simp add: audioChunkMessage_def exampleEnv_def exampleChunk_def base64Data_def)
  from audio_chunk_fields [of exampleChunk exampleEnv "''webm''" 1000 exampleCalling]
       audio_chunk_fields [of "\<lparr>blob_size = 0, dataURL = ''data:,''\<rparr>" exampleEnv "''webm''" 1000 exampleCalling]
  show ?thesis using size msg by simp
qed

text \<open>
  The claim as written, that a chunk carries a sequence index recording its emission
  order, fails: on the example call, which has a conversation id, the first and the
  second chunk of a recording with the same audio are emitted as the same four-field
  message, so that nothing in it can be the index 0 of the one and the index 1 of the
  other.
\<close>

theorem audio_chunk_no_sequence_index:
  "effects (ondataavailable exampleEnv ''webm'' 3000 exampleChunk
             (ondataavailable exampleEnv ''webm'' 1000 exampleChunk initial_state)) =
     [Emit ''audio-chunk''
        (JObj [(''conversationId'', JStr ''conv1''), (''audioData'', JStr ''AAAA''),
               (''userId'', JStr ''u1''), (''format'', JStr ''webm'')]),
      Emit ''audio-chunk''
        (JObj [(''conversationId'', JStr ''conv1''), (''audioData'', JStr ''AAAA''),
               (''userId'', JStr ''u1''), (''format'', JStr ''webm'')])]
   \<and> js_keys (audioChunkMessage exampleEnv ''webm'' 1000 exampleChunk) =
       [''conversationId'', ''audioData'', ''userId'', ''format'']"
  by (simp add: ondataavailable_def audioChunkMessage_def exampleEnv_def exampleChunk_def
      base64Data_def initial_state_def)

subsection \<open>Fraud alert policy\<close>

text \<open>
  C10. For every fraud score and analysis type, \<^verbatim>\<open>calculateAlertSeverity\<close> answers
  \<open>high\<close> exactly when the type is \<open>text\<close> and the score is 2, or the type is \<open>audio\<close>
  and the score is 1, and \<open>low\<close> in every other case; so the score 1 is \<open>high\<close> for
  audio and \<open>low\<close> for text. \<^verbatim>\<open>generateAlertMessage\<close> draws the same line: it gives one
  of its two alarm messages on exactly those combinations.
\<close>

theorem severity_partition:
  "(calculateAlertSeverity fraudScore type = ''high'') = alarming fraudScore type
   \<and> (calculateAlertSeverity fraudScore type = ''low'') = (\<not> alarming fraudScore type)
   \<and> calculateAlertSeverity (JNum 1) (JStr ''audio'') = ''high''
   \<and> calculateAlertSeverity (JNum 1) (JStr ''text'') = ''low''
   \<and> (generateAlertMessage fraudScore type
         \<in> {''Potential scam detected in conversation'', ''Suspicious audio patterns detected''})
       = alarming fraudScore type"
  by (auto simp: calculateAlertSeverity_def generateAlertMessage_def alarming_def strict_eq_def)

end
